theory Spec2Isabelle
  imports Complex_Main "HOL-Library.AList" "HOL-Library.Char_ord" "HOL-Library.List_Lexorder"
begin

section \<open>Python values\<close>

text \<open>
  The two programs (\<^verbatim>\<open>ExpansionAirdropLootBuilder_v1_8.py\<close> and
  \<^verbatim>\<open>ExpansionAirdropLootBuilder_v2_0.py\<close>) edit JSON documents held as Python
  dicts and lists. A Python float is modelled by the real number its literal denotes, with
  the three non-finite values apart. A dict is an association list with distinct keys in
  insertion order: \<open>map_of\<close> is \<^verbatim>\<open>d.get(k)\<close>, \<open>AList.update\<close> is
  \<^verbatim>\<open>d[k] = v\<close> and \<open>AList.delete\<close> is \<^verbatim>\<open>d.pop(k, None)\<close>.
  Strings are lists of 8-bit characters; the programs' class names are ASCII.
\<close>

datatype pyfloat = Finite real | PosInf | NegInf | NaN

datatype json =
    JNull
  | JBool bool
  | JInt int
  | JFloat pyfloat
  | JStr string
  | JList "json list"
  | JObj "(string \<times> json) list"

type_synonym pydict = "(string \<times> json) list"

text \<open>Exceptions that escape a handler; the GUI toolkit reports them and the handler's
  remaining statements do not run.\<close>

datatype py_exn = KeyError | IndexError | TypeError | AttributeError | ValueError

text \<open>The message boxes a handler shows: kind and title.\<close>

datatype notice = ShowInfo string | ShowWarning string | ShowError string

text \<open>
  Python built-ins whose definition lies outside the repository are parameters:
  \<^verbatim>\<open>float(s)\<close> and \<^verbatim>\<open>int(s)\<close> on a string (\<open>None\<close> where Python raises
  \<^verbatim>\<open>ValueError\<close>), \<^verbatim>\<open>str(v)\<close> on a value that is not already a string, and the
  order in which a \<^verbatim>\<open>set\<close> of strings is iterated, as a function of the sequence in
  which its elements were added.
\<close>

record builtins =
  py_float :: "string \<Rightarrow> pyfloat option"
  py_int :: "string \<Rightarrow> int option"
  py_repr :: "json \<Rightarrow> string"
  py_set_iter :: "string list \<Rightarrow> string list"

definition py_str :: "builtins \<Rightarrow> json \<Rightarrow> string" where
  "py_str B v = (case v of JStr s \<Rightarrow> s | _ \<Rightarrow> py_repr B v)"

text \<open>Truth value of a Python object, as \<^verbatim>\<open>if x\<close>, \<^verbatim>\<open>not x\<close> and \<^verbatim>\<open>x or y\<close> test it.\<close>

fun truthy :: "json \<Rightarrow> bool" where
  "truthy JNull = False"
| "truthy (JBool b) = b"
| "truthy (JInt i) = (i \<noteq> 0)"
| "truthy (JFloat (Finite r)) = (r \<noteq> 0)"
| "truthy (JFloat _) = True"
| "truthy (JStr s) = (s \<noteq> [])"
| "truthy (JList xs) = (xs \<noteq> [])"
| "truthy (JObj d) = (d \<noteq> [])"

definition is_space :: "char \<Rightarrow> bool" where
  "is_space c = (let n = (of_char c :: nat) in (9 \<le> n \<and> n \<le> 13) \<or> (28 \<le> n \<and> n \<le> 32))"

definition strip :: "string \<Rightarrow> string" where
  "strip s = rev (dropWhile is_space (rev (dropWhile is_space s)))"

text \<open>\<^verbatim>\<open>str.lower\<close> on ASCII text.\<close>

definition lower_char :: "char \<Rightarrow> char" where
  "lower_char c = (case map_of (zip ''ABCDEFGHIJKLMNOPQRSTUVWXYZ'' ''abcdefghijklmnopqrstuvwxyz'') c of
      None \<Rightarrow> c
    | Some l \<Rightarrow> l)"

definition lower :: "string \<Rightarrow> string" where
  "lower s = map lower_char s"

text \<open>\<^verbatim>\<open>int(x)\<close> on a float truncates towards zero.\<close>

definition trunc :: "real \<Rightarrow> int" where
  "trunc r = (if 0 \<le> r then \<lfloor>r\<rfloor> else \<lceil>r\<rceil>)"


text \<open>Sequencing of steps that may raise.\<close>

definition and_then :: "py_exn + 'a \<Rightarrow> ('a \<Rightarrow> py_exn + 'b) \<Rightarrow> py_exn + 'b" where
  "and_then m f = (case m of Inl e \<Rightarrow> Inl e | Inr x \<Rightarrow> f x)"

text \<open>\<^verbatim>\<open>xs[i]\<close> for an index that is not negative.\<close>

definition subscript :: "'a list \<Rightarrow> nat \<Rightarrow> py_exn + 'a" where
  "subscript xs i = (if i < length xs then Inr (xs ! i) else Inl IndexError)"

text \<open>\<^verbatim>\<open>del xs[i]\<close> and \<^verbatim>\<open>xs.pop(i)\<close>, for an index in range.\<close>

definition del_index :: "nat \<Rightarrow> 'a list \<Rightarrow> 'a list" where
  "del_index i xs = take i xs @ drop (Suc i) xs"

text \<open>\<^verbatim>\<open>d.setdefault(k, v)\<close>\<close>

definition setdefault :: "string \<Rightarrow> json \<Rightarrow> pydict \<Rightarrow> pydict" where
  "setdefault k v d = (if k \<in> fst ` set d then d else AList.update k v d)"

text \<open>\<^verbatim>\<open>d.get(k, v)\<close>\<close>

definition get_or :: "pydict \<Rightarrow> string \<Rightarrow> json \<Rightarrow> json" where
  "get_or d k v = (case map_of d k of None \<Rightarrow> v | Some x \<Rightarrow> x)"

definition endswith :: "string \<Rightarrow> string \<Rightarrow> bool" where
  "endswith s suf = (length suf \<le> length s \<and> drop (length s - length suf) s = suf)"

section \<open>Files and folders\<close>

text \<open>
  A parsed XML element, as \<^verbatim>\<open>xml.etree.ElementTree\<close> presents it: tag, attributes, text and
  child elements.
\<close>

datatype xml = Element (tag: string) (attrib: "(string \<times> string) list") (etext: "string option") (children: "xml list")

definition findall :: "string \<Rightarrow> xml \<Rightarrow> xml list" where
  "findall tg e = filter (\<lambda>c. tag c = tg) (children e)"

definition findtext :: "string \<Rightarrow> xml \<Rightarrow> string option" where
  "findtext tg e = (case findall tg e of
      [] \<Rightarrow> None
    | c # _ \<Rightarrow> Some (case etext c of None \<Rightarrow> [] | Some s \<Rightarrow> s))"

text \<open>
  What the programs read from the operating system: the folder walk (\<^verbatim>\<open>os.walk\<close>: each
  directory with its file names), the parse of a file (\<open>None\<close> where \<^verbatim>\<open>ET.parse\<close> raises),
  and the path functions of \<^verbatim>\<open>os.path\<close>.
\<close>

record world =
  os_walk :: "string \<Rightarrow> (string \<times> string list) list"
  et_parse :: "string \<Rightarrow> xml option"
  path_join :: "string \<Rightarrow> string \<Rightarrow> string"
  basename :: "string \<Rightarrow> string"

text \<open>
  The file system holds documents; a write that fails after the file was opened leaves it
  truncated. \<open>stamp\<close> is the clock reading \<^verbatim>\<open>time.strftime\<close> returns, \<open>copy_fails\<close> and
  \<open>write_result\<close> say what the operating system does with the backup copy and the write.
\<close>

datatype file_content = Document json | Truncated

type_synonym files = "string \<Rightarrow> file_content option"





section \<open>State shared by both versions\<close>

text \<open>
  The attributes of the application object that the handlers read and write. Widgets are left
  out; the form variables (\<^verbatim>\<open>var_*\<close>) are kept, since handlers read them back. The type of
  the catalog's metadata and of the dropdown's names differs between the versions.
\<close>

record ('m, 'n) app =
  airdrop_path :: string
  airdrop_data :: "json option"
  types_folders :: "string list"
  types_files_loaded :: "string list"
  all_items :: "string list"
  item_meta :: "(string \<times> 'm) list"
  source_to_items :: "(string \<times> string list) list"
  container_names :: "'n list"
  selected_loot_index :: "nat option"
  var_search :: string
  var_source :: string
  var_container :: string
  var_item_count :: string
  var_infected_count :: string
  var_infected_enabled :: bool
  var_name :: string
  var_chance :: string
  var_min :: string
  var_max :: string
  var_qty :: string

section \<open>Version 1.8\<close>

subsection \<open>Helpers\<close>



text \<open>\<^verbatim>\<open>safe_int(s, default)\<close>: \<^verbatim>\<open>int(float(s))\<close>, the default when either conversion
  raises (\<^verbatim>\<open>int\<close> raises on an infinity or a NaN).\<close>

definition safe_int :: "builtins \<Rightarrow> string \<Rightarrow> json \<Rightarrow> json" where
  "safe_int B s dflt = (case py_float B s of Some (Finite r) \<Rightarrow> JInt (trunc r) | _ \<Rightarrow> dflt)"


definition default_loot_entry :: "string \<Rightarrow> json" where
  "default_loot_entry classname = JObj
     [(''Name'', JStr classname),
      (''Chance'', JFloat (Finite 0.10)),
      (''Attachments'', JList []),
      (''QuantityPercent'', JFloat (Finite (- 1.0))),
      (''Max'', JInt (- 1)),
      (''Min'', JInt 0),
      (''Variants'', JList [])]"

subsection \<open>The reference catalog\<close>

record ItemMeta =
  category :: string
  nominal :: string
  minimum :: string
  tags :: "string list"
  source :: string

definition text_or_empty :: "string option \<Rightarrow> string" where
  "text_or_empty t = (case t of None \<Rightarrow> [] | Some s \<Rightarrow> s)"

definition type_meta :: "string \<Rightarrow> xml \<Rightarrow> ItemMeta" where
  "type_meta source_name t =
     \<lparr>category = strip (text_or_empty (findtext ''category'' t)),
      nominal = strip (text_or_empty (findtext ''nominal'' t)),
      minimum = strip (text_or_empty (findtext ''min'' t)),
      tags = map strip (filter (\<lambda>s. s \<noteq> [] \<and> strip s \<noteq> [])
               (map (\<lambda>x. text_or_empty (etext x)) (findall ''tag'' t))),
      source = source_name\<rparr>"

text \<open>The body of the loop over \<^verbatim>\<open>root.findall("type")\<close> in \<^verbatim>\<open>load_types_xml\<close>.\<close>

definition load_type_v18 ::
  "string \<Rightarrow> string list \<times> (string \<times> ItemMeta) list \<Rightarrow> xml \<Rightarrow> string list \<times> (string \<times> ItemMeta) list" where
  "load_type_v18 source_name acc t = (case map_of (attrib t) ''name'' of
      None \<Rightarrow> acc
    | Some name \<Rightarrow> if name = [] then acc
        else (fst acc @ [name], AList.update name (type_meta source_name t) (snd acc)))"

text \<open>\<^verbatim>\<open>load_types_xml\<close>; \<open>None\<close> when the parse raises. The class names come back as
  \<^verbatim>\<open>sorted(set(classnames), key=str.lower)\<close>.\<close>

definition load_types_xml_v18 ::
  "world \<Rightarrow> builtins \<Rightarrow> string \<Rightarrow> (string list \<times> (string \<times> ItemMeta) list) option" where
  "load_types_xml_v18 W B path = (case et_parse W path of
      None \<Rightarrow> None
    | Some tree_root \<Rightarrow>
        let acc = foldl (load_type_v18 (basename W path)) ([], []) (findall ''type'' tree_root)
        in Some (sort_key lower (py_set_iter B (fst acc)), snd acc))"

definition xml_files :: "world \<Rightarrow> string \<Rightarrow> string list" where
  "xml_files W folder = concat (map (\<lambda>(dir, files).
       map (path_join W dir) (filter (\<lambda>fn. endswith (lower fn) ''.xml'') files)) (os_walk W folder))"

definition find_xml_files_in_folder_v18 :: "world \<Rightarrow> string \<Rightarrow> string list" where
  "find_xml_files_in_folder_v18 W folder = sort_key lower (xml_files W folder)"

text \<open>\<^verbatim>\<open>for k, v in meta.items(): if k not in self.item_meta: self.item_meta[k] = v\<close>\<close>

definition merge_meta :: "(string \<times> 'm) list \<Rightarrow> (string \<times> 'm) list \<Rightarrow> (string \<times> 'm) list" where
  "merge_meta known meta =
     foldl (\<lambda>m (k, v). if k \<in> fst ` set m then m else AList.update k v m) known meta"

record app18 = "(ItemMeta, json) app" +
  current_container_index :: "nat option"
  pending_container_settings :: "(nat \<times> pydict) list"

text \<open>One pass of the loop of \<^verbatim>\<open>_merge_types_files\<close>; the accumulator is the state, the
  elements added to \<^verbatim>\<open>merged_items\<close> so far and the error lines.\<close>

definition merge_file_v18 ::
  "world \<Rightarrow> builtins \<Rightarrow> app18 \<times> string list \<times> string list \<Rightarrow> string \<Rightarrow> app18 \<times> string list \<times> string list" where
  "merge_file_v18 W B acc p = (case acc of (st, merged, errors) \<Rightarrow>
     (case load_types_xml_v18 W B p of
        None \<Rightarrow> (st, merged, errors @ [basename W p])
      | Some (items, meta) \<Rightarrow>
          (st\<lparr>source_to_items := AList.update (basename W p) items (source_to_items st),
              types_files_loaded := (if p \<in> set (types_files_loaded st) then types_files_loaded st
                                     else types_files_loaded st @ [p]),
              item_meta := merge_meta (item_meta st) meta\<rparr>,
           merged @ items, errors)))"

definition merge_types_files_v18 ::
  "world \<Rightarrow> builtins \<Rightarrow> string list \<Rightarrow> app18 \<Rightarrow> notice option \<times> app18" where
  "merge_types_files_v18 W B paths st =
     (case foldl (merge_file_v18 W B) (st, all_items st, []) paths of (st1, merged, errors) \<Rightarrow>
        (if errors \<noteq> [] then Some (ShowWarning ''Some files failed to load'') else None,
         st1\<lparr>all_items := sort_key lower (py_set_iter B merged),
             var_source := ''All Types Files''\<rparr>))"

text \<open>\<^verbatim>\<open>add_types_folder\<close>; \<open>folder\<close> is the answer of the directory dialog.\<close>

definition add_types_folder :: "world \<Rightarrow> builtins \<Rightarrow> string \<Rightarrow> app18 \<Rightarrow> notice option \<times> app18" where
  "add_types_folder W B folder st =
     (if folder = [] then (None, st)
      else
        let st1 = st\<lparr>types_folders := types_folders st @ [folder]\<rparr>;
            xmls = find_xml_files_in_folder_v18 W folder
        in if xmls = [] then (Some (ShowWarning ''No XML found''), st1)
           else merge_types_files_v18 W B xmls st1)"

subsection \<open>The document\<close>

text \<open>\<^verbatim>\<open>data["Containers"]\<close>, and the document after its container list was changed in place.\<close>

definition get_containers :: "json \<Rightarrow> py_exn + json list" where
  "get_containers data = (case data of
      JObj d \<Rightarrow> (case map_of d ''Containers'' of
          None \<Rightarrow> Inl KeyError
        | Some (JList cs) \<Rightarrow> Inr cs
        | Some _ \<Rightarrow> Inl TypeError)
    | _ \<Rightarrow> Inl TypeError)"

definition set_containers :: "json list \<Rightarrow> json \<Rightarrow> json" where
  "set_containers cs data = (case data of
      JObj d \<Rightarrow> JObj (AList.update ''Containers'' (JList cs) d)
    | _ \<Rightarrow> data)"

text \<open>\<^verbatim>\<open>not self.airdrop_data\<close>\<close>

definition no_data :: "json option \<Rightarrow> bool" where
  "no_data data = (case data of None \<Rightarrow> True | Some d \<Rightarrow> \<not> truthy d)"

definition get_current_container :: "app18 \<Rightarrow> py_exn + json option" where
  "get_current_container st = (case airdrop_data st of
      None \<Rightarrow> Inr None
    | Some data \<Rightarrow> (case current_container_index st of
          None \<Rightarrow> Inr None
        | Some idx \<Rightarrow> and_then (get_containers data) (\<lambda>cs.
            and_then (subscript cs idx) (\<lambda>c. Inr (Some c)))))"

text \<open>The state after the current container object was changed in place to \<open>c\<close>.\<close>

definition put_current_container :: "json \<Rightarrow> app18 \<Rightarrow> py_exn + app18" where
  "put_current_container c st = (case airdrop_data st of
      None \<Rightarrow> Inr st
    | Some data \<Rightarrow> (case current_container_index st of
          None \<Rightarrow> Inr st
        | Some idx \<Rightarrow> and_then (get_containers data) (\<lambda>cs.
            Inr (st\<lparr>airdrop_data := Some (set_containers (cs[idx := c]) data)\<rparr>))))"

subsection \<open>Pending container settings\<close>

text \<open>What \<^verbatim>\<open>_stash_pending_container_settings\<close> does to the pending dict \<open>p0\<close> of the
  current container: a count that is empty after stripping is popped, any other text is stored
  as \<^verbatim>\<open>safe_int(text, 0)\<close>, and the checkbox is always stored.\<close>

definition patch_from_form :: "builtins \<Rightarrow> app18 \<Rightarrow> pydict \<Rightarrow> pydict" where
  "patch_from_form B st p0 =
     (let item_count_str = strip (var_item_count st);
          infected_count_str = strip (var_infected_count st);
          infected_enabled = var_infected_enabled st;
          p1 = (if item_count_str \<noteq> []
                then AList.update ''ItemCount'' (safe_int B item_count_str (JInt 0)) p0
                else AList.delete ''ItemCount'' p0);
          p2 = (if infected_count_str \<noteq> []
                then AList.update ''InfectedCount'' (safe_int B infected_count_str (JInt 0)) p1
                else AList.delete ''InfectedCount'' p1)
      in AList.update ''Infected'' (JBool infected_enabled) p2)"

definition stash_pending_container_settings :: "builtins \<Rightarrow> app18 \<Rightarrow> app18" where
  "stash_pending_container_settings B st = (case airdrop_data st of
      None \<Rightarrow> st
    | Some _ \<Rightarrow> (case current_container_index st of
          None \<Rightarrow> st
        | Some idx \<Rightarrow>
            let pending = patch_from_form B st
                  (case map_of (pending_container_settings st) idx of None \<Rightarrow> [] | Some p \<Rightarrow> p)
            in if pending \<noteq> []
               then st\<lparr>pending_container_settings := AList.update idx pending (pending_container_settings st)\<rparr>
               else st\<lparr>pending_container_settings := AList.delete idx (pending_container_settings st)\<rparr>))"

definition blank_container_settings :: "app18 \<Rightarrow> app18" where
  "blank_container_settings st = st\<lparr>var_item_count := [], var_infected_count := [], var_infected_enabled := True\<rparr>"

definition load_container_settings_into_ui :: "builtins \<Rightarrow> app18 \<Rightarrow> py_exn + app18" where
  "load_container_settings_into_ui B st = and_then (get_current_container st) (\<lambda>cur.
     case cur of
       None \<Rightarrow> Inr (blank_container_settings st)
     | Some c \<Rightarrow> if \<not> truthy c then Inr (blank_container_settings st)
         else (case c of
             JObj d \<Rightarrow>
               let pending = (case current_container_index st of
                                None \<Rightarrow> None
                              | Some idx \<Rightarrow> map_of (pending_container_settings st) idx);
                   item_count = get_or d ''ItemCount'' (JStr []);
                   infected_count = get_or d ''InfectedCount'' (JStr []);
                   infected_enabled = get_or d ''Infected'' (JBool True);
                   staged = (case pending of None \<Rightarrow> [] | Some p \<Rightarrow> p);
                   item_count' = (if staged \<noteq> [] then get_or staged ''ItemCount'' item_count else item_count);
                   infected_count' = (if staged \<noteq> [] then get_or staged ''InfectedCount'' infected_count
                                      else infected_count);
                   infected_enabled' = (if staged \<noteq> [] then get_or staged ''Infected'' infected_enabled
                                        else infected_enabled)
               in Inr (st\<lparr>var_item_count := (if item_count' = JStr [] then [] else py_str B item_count'),
                          var_infected_count := (if infected_count' = JStr [] then [] else py_str B infected_count'),
                          var_infected_enabled := truthy infected_enabled'\<rparr>)
           | _ \<Rightarrow> Inl AttributeError))"





subsection \<open>Saving\<close>


subsection \<open>Containers\<close>

text \<open>\<^verbatim>\<open>[c.get("Container", f"Container_{i}") for i, c in enumerate(containers)]\<close>\<close>

fun names_from :: "builtins \<Rightarrow> nat \<Rightarrow> json list \<Rightarrow> py_exn + json list" where
  "names_from B i [] = Inr []"
| "names_from B i (c # cs) = (case c of
      JObj d \<Rightarrow> and_then (names_from B (Suc i) cs) (\<lambda>ns.
        Inr (get_or d ''Container'' (JStr (''Container_'' @ py_repr B (JInt (int i)))) # ns))
    | _ \<Rightarrow> Inl AttributeError)"

definition rebuild_container_dropdown :: "builtins \<Rightarrow> nat option \<Rightarrow> app18 \<Rightarrow> py_exn + app18" where
  "rebuild_container_dropdown B select_index st =
     (if no_data (airdrop_data st)
      then Inr (st\<lparr>container_names := [], var_container := ''Load airdrop file first'',
                  current_container_index := None\<rparr>)
      else and_then (get_containers (the (airdrop_data st))) (\<lambda>cs.
        and_then (names_from B 0 cs) (\<lambda>names.
          if names = []
          then Inr (st\<lparr>container_names := [], var_container := ''(No containers)'',
                      current_container_index := None\<rparr>)
          else
            let sel = (case select_index of
                         Some i \<Rightarrow> i
                       | None \<Rightarrow> min (max (case current_container_index st of None \<Rightarrow> 0 | Some i \<Rightarrow> i) 0)
                                     (length names - 1))
            in and_then (subscript names sel) (\<lambda>nm.
                 Inr (st\<lparr>container_names := names, current_container_index := Some sel,
                         var_container := py_str B nm\<rparr>)))))"

definition clear_editor :: "app18 \<Rightarrow> app18" where
  "clear_editor st = st\<lparr>var_name := [], var_chance := [], var_min := [], var_max := [], var_qty := []\<rparr>"

text \<open>\<^verbatim>\<open>refresh_loot_table_chunked\<close>, as far as it touches the document: a loot value that is
  no list is replaced by an empty list. The rows it schedules for display are not modelled.\<close>

definition refresh_loot_table_chunked :: "app18 \<Rightarrow> py_exn + app18" where
  "refresh_loot_table_chunked st = and_then (get_current_container st) (\<lambda>cur.
     case cur of
       None \<Rightarrow> Inr st
     | Some c \<Rightarrow> if \<not> truthy c then Inr st
         else (case c of
             JObj d \<Rightarrow> (case get_or d ''Loot'' (JList []) of
                 JList loot \<Rightarrow> Inr st
               | _ \<Rightarrow> put_current_container (JObj (AList.update ''Loot'' (JList []) d)) st)
           | _ \<Rightarrow> Inl AttributeError))"





text \<open>\<^verbatim>\<open>add_container_clone\<close>; \<open>template_name\<close> and \<open>new_name\<close> are the answers of the
  two dialogs.\<close>

definition index_of :: "json \<Rightarrow> json list \<Rightarrow> nat option" where
  "index_of x xs = (if x \<in> set xs then Some (length (takeWhile (\<lambda>y. y \<noteq> x) xs)) else None)"


text \<open>The new pending dict \<^verbatim>\<open>remove_container\<close> builds: entries below the removed index
  keep their key, entries above it move down by one.\<close>

definition remap_pending :: "nat \<Rightarrow> (nat \<times> pydict) list \<Rightarrow> (nat \<times> pydict) list" where
  "remap_pending removed_idx pending =
     foldl (\<lambda>new_pending (idx, changes).
              if idx < removed_idx then AList.update idx changes new_pending
              else if idx > removed_idx then AList.update (idx - 1) changes new_pending
              else new_pending) [] pending"

text \<open>\<^verbatim>\<open>remove_container\<close>; \<open>confirm\<close> is the answer to "Delete container?".\<close>

definition remove_container :: "builtins \<Rightarrow> bool \<Rightarrow> app18 \<Rightarrow> py_exn + app18" where
  "remove_container B confirm st =
     (if no_data (airdrop_data st) \<or> current_container_index st = None then Inr st
      else
        let data = the (airdrop_data st); removed_idx = the (current_container_index st) in
        and_then (subscript (container_names st) removed_idx) (\<lambda>name.
          if \<not> confirm then Inr st
          else and_then (get_containers data) (\<lambda>cs.
            if removed_idx \<ge> length cs then Inl IndexError
            else
              let cs' = del_index removed_idx cs;
                  st1 = st\<lparr>airdrop_data := Some (set_containers cs' data),
                           pending_container_settings :=
                             remap_pending removed_idx (AList.delete removed_idx (pending_container_settings st))\<rparr>
              in if length cs' = 0
                 then and_then (rebuild_container_dropdown B None (st1\<lparr>current_container_index := None\<rparr>)) (\<lambda>st2.
                        load_container_settings_into_ui B (clear_editor st2))
                 else and_then (rebuild_container_dropdown B (Some (min removed_idx (length cs' - 1))) st1) (\<lambda>st2.
                        and_then (load_container_settings_into_ui B (clear_editor (st2\<lparr>selected_loot_index := None\<rparr>)))
                          refresh_loot_table_chunked))))"

subsection \<open>Loot entries\<close>

text \<open>The loot list of a container dict that has one (every container has, once loaded).\<close>

definition loot_of :: "pydict \<Rightarrow> py_exn + json list" where
  "loot_of d = (case get_or d ''Loot'' (JList []) of JList loot \<Rightarrow> Inr loot | _ \<Rightarrow> Inl TypeError)"

definition populate_editor_from_selected :: "builtins \<Rightarrow> app18 \<Rightarrow> py_exn + app18" where
  "populate_editor_from_selected B st = and_then (get_current_container st) (\<lambda>cur.
     case cur of
       None \<Rightarrow> Inr (clear_editor st)
     | Some c \<Rightarrow>
         if \<not> truthy c \<or> selected_loot_index st = None then Inr (clear_editor st)
         else (case c of
             JObj d \<Rightarrow> and_then (loot_of d) (\<lambda>loot.
               let idx = the (selected_loot_index st) in
               if idx \<ge> length loot then Inr (clear_editor st)
               else (case loot ! idx of
                   JObj entry \<Rightarrow> Inr (st\<lparr>
                     var_name := py_str B (get_or entry ''Name'' (JStr [])),
                     var_chance := py_str B (get_or entry ''Chance'' (JFloat (Finite 0.0))),
                     var_min := py_str B (get_or entry ''Min'' (JInt 0)),
                     var_max := py_str B (get_or entry ''Max'' (JInt (- 1))),
                     var_qty := py_str B (get_or entry ''QuantityPercent'' (JFloat (Finite (- 1.0))))\<rparr>)
                 | _ \<Rightarrow> Inl AttributeError))
           | _ \<Rightarrow> Inl AttributeError))"

text \<open>\<^verbatim>\<open>add_item_to_loot\<close>\<close>

definition add_item_to_loot :: "builtins \<Rightarrow> string \<Rightarrow> app18 \<Rightarrow> py_exn + (notice option \<times> app18)" where
  "add_item_to_loot B classname st = and_then (get_current_container st) (\<lambda>cur.
     case cur of
       None \<Rightarrow> Inr (Some (ShowWarning ''No Container''), st)
     | Some c \<Rightarrow>
         if \<not> truthy c then Inr (Some (ShowWarning ''No Container''), st)
         else (case c of
             JObj d \<Rightarrow>
               let d1 = setdefault ''Loot'' (JList []) d in
               (case map_of d1 ''Loot'' of
                  Some (JList loot) \<Rightarrow>
                    let loot' = loot @ [default_loot_entry classname] in
                    and_then (put_current_container (JObj (AList.update ''Loot'' (JList loot') d1)) st) (\<lambda>st1.
                      and_then (populate_editor_from_selected B (st1\<lparr>selected_loot_index := Some (length loot' - 1)\<rparr>))
                        (\<lambda>st2. Inr (None, st2)))
                | _ \<Rightarrow> Inl AttributeError)
           | _ \<Rightarrow> Inl AttributeError))"



subsection \<open>Loading and selecting\<close>

text \<open>\<^verbatim>\<open>load_airdrop_json\<close> on the parsed file: the document needs a \<^verbatim>\<open>Containers\<close> list,
  every container a \<^verbatim>\<open>Container\<close> key, and a loot value that is missing or no list becomes an
  empty list.\<close>

fun check_containers :: "json list \<Rightarrow> py_exn + json list" where
  "check_containers [] = Inr []"
| "check_containers (c # cs) = (case c of
      JObj d \<Rightarrow>
        if ''Container'' \<notin> fst ` set d then Inl ValueError
        else and_then (check_containers cs) (\<lambda>cs'.
          Inr (JObj (case map_of d ''Loot'' of
                       Some (JList loot) \<Rightarrow> d
                     | _ \<Rightarrow> AList.update ''Loot'' (JList []) d) # cs'))
    | _ \<Rightarrow> Inl TypeError)"

definition load_airdrop_json :: "json \<Rightarrow> py_exn + json" where
  "load_airdrop_json data = (case data of
      JObj d \<Rightarrow> (case map_of d ''Containers'' of
          Some (JList cs) \<Rightarrow> and_then (check_containers cs) (\<lambda>cs'. Inr (set_containers cs' data))
        | _ \<Rightarrow> Inl ValueError)
    | _ \<Rightarrow> Inl TypeError)"

text \<open>What \<^verbatim>\<open>load_airdrop_json\<close> establishes for every container, and what every handler
  keeps: a dict with a name and a loot list.\<close>

definition wf_container :: "json \<Rightarrow> bool" where
  "wf_container c = (case c of
      JObj d \<Rightarrow> ''Container'' \<in> fst ` set d \<and> (case map_of d ''Loot'' of Some (JList loot) \<Rightarrow> True | _ \<Rightarrow> False)
    | _ \<Rightarrow> False)"

text \<open>The pending settings are a Python dict of dicts: no key occurs twice.\<close>

definition wf_pending :: "(nat \<times> pydict) list \<Rightarrow> bool" where
  "wf_pending p = (distinct (map fst p) \<and> list_all (\<lambda>kv. distinct (map fst (snd kv))) p)"


text \<open>\<^verbatim>\<open>on_container_change\<close> of version 1.8; the dropdown has put the chosen name into
  \<^verbatim>\<open>var_container\<close> before it calls the handler.\<close>

definition on_container_change_v18 :: "builtins \<Rightarrow> app18 \<Rightarrow> py_exn + app18" where
  "on_container_change_v18 B st =
     (if no_data (airdrop_data st) then Inr st
      else
        let st1 = stash_pending_container_settings B st in
        (case index_of (JStr (var_container st1)) (container_names st1) of
           None \<Rightarrow> Inr st1
         | Some i \<Rightarrow>
             and_then (load_container_settings_into_ui B
                        (clear_editor (st1\<lparr>current_container_index := Some i, selected_loot_index := None\<rparr>)))
               refresh_loot_table_chunked))"

section \<open>Version 2.0\<close>

text \<open>\<^verbatim>\<open>safe_int(val, default)\<close> of version 2.0: \<^verbatim>\<open>int(val)\<close>, the default when it raises.\<close>

definition safe_int_v20 :: "builtins \<Rightarrow> string \<Rightarrow> int \<Rightarrow> int" where
  "safe_int_v20 B val dflt = (case py_int B val of Some i \<Rightarrow> i | None \<Rightarrow> dflt)"

subsection \<open>The reference catalog\<close>

text \<open>The body of the loop over \<^verbatim>\<open>root.findall("type")\<close> in \<^verbatim>\<open>load_types_xml\<close>.\<close>

definition load_type_v20 ::
  "string \<Rightarrow> string list \<times> (string \<times> pydict) list \<Rightarrow> xml \<Rightarrow> string list \<times> (string \<times> pydict) list" where
  "load_type_v20 src acc t = (case map_of (attrib t) ''name'' of
      None \<Rightarrow> acc
    | Some name \<Rightarrow> if name = [] then acc
        else
          let cat = (case findall ''category'' t of
                       [] \<Rightarrow> []
                     | cat_node # _ \<Rightarrow> (case etext cat_node of
                           None \<Rightarrow> []
                         | Some s \<Rightarrow> if s = [] then [] else strip s))
          in (fst acc @ [name],
              AList.update name [(''source'', JStr src), (''category'', JStr cat)] (snd acc)))"

definition load_types_xml_v20 ::
  "world \<Rightarrow> string \<Rightarrow> (string list \<times> (string \<times> pydict) list) option" where
  "load_types_xml_v20 W path = (case et_parse W path of
      None \<Rightarrow> None
    | Some tree_root \<Rightarrow> Some (foldl (load_type_v20 (basename W path)) ([], []) (findall ''type'' tree_root)))"

definition find_xml_files_in_folder_v20 :: "world \<Rightarrow> string \<Rightarrow> string list" where
  "find_xml_files_in_folder_v20 W folder = xml_files W folder"

text \<open>A reference to a container object, as \<^verbatim>\<open>_index_containers\<close> stores it: on the document
  tree the object is named by the key of the list that holds it and its position there. The
  index is rebuilt after every change of a container list, so the path always names the object
  the reference points to.\<close>

record container_ref =
  list_key :: string
  ref_idx :: nat

record app20 = "(pydict, string) app" +
  container_index :: "(string \<times> container_ref) list"
  current_container_key :: "string option"
  cfg_types_folders :: "string list"

text \<open>\<^verbatim>\<open>_remember_types_folders\<close>: the folders without repetitions and empty names, in
  order, go to the configuration.\<close>

definition remember_types_folders :: "string list \<Rightarrow> app20 \<Rightarrow> app20" where
  "remember_types_folders folders st =
     st\<lparr>cfg_types_folders := foldl (\<lambda>out p. if p \<noteq> [] \<and> p \<notin> set out then out @ [p] else out) [] folders\<rparr>"

definition merge_file_v20 ::
  "world \<Rightarrow> app20 \<times> string list \<times> string list \<Rightarrow> string \<Rightarrow> app20 \<times> string list \<times> string list" where
  "merge_file_v20 W acc p = (case acc of (st, merged, errors) \<Rightarrow>
     (case load_types_xml_v20 W p of
        None \<Rightarrow> (st, merged, errors @ [basename W p])
      | Some (items, meta) \<Rightarrow>
          (st\<lparr>source_to_items := AList.update (basename W p) items (source_to_items st),
              types_files_loaded := (if p \<in> set (types_files_loaded st) then types_files_loaded st
                                     else types_files_loaded st @ [p]),
              item_meta := merge_meta (item_meta st) meta\<rparr>,
           merged @ items, errors)))"

definition merge_types_files_v20 ::
  "world \<Rightarrow> builtins \<Rightarrow> string list \<Rightarrow> bool \<Rightarrow> app20 \<Rightarrow> notice option \<times> app20" where
  "merge_types_files_v20 W B paths show_warnings st =
     (case foldl (merge_file_v20 W) (st, all_items st, []) paths of (st1, merged, errors) \<Rightarrow>
        (if errors \<noteq> [] \<and> show_warnings then Some (ShowWarning ''Some files failed to load'') else None,
         st1\<lparr>all_items := sort_key lower (py_set_iter B merged),
             var_source := ''All Types Files''\<rparr>))"

definition load_types_folder_silent ::
  "world \<Rightarrow> builtins \<Rightarrow> string \<Rightarrow> bool \<Rightarrow> app20 \<Rightarrow> notice option \<times> app20" where
  "load_types_folder_silent W B folder show_warnings st =
     (if folder \<in> set (types_folders st) then (None, st)
      else
        let xmls = find_xml_files_in_folder_v20 W folder in
        if xmls = [] then (if show_warnings then Some (ShowWarning ''No XML found'') else None, st)
        else (case merge_types_files_v20 W B xmls show_warnings
                     (st\<lparr>types_folders := types_folders st @ [folder]\<rparr>) of
                (n, st1) \<Rightarrow> (n, remember_types_folders (types_folders st1) st1)))"

text \<open>\<^verbatim>\<open>load_types\<close>; \<open>folder\<close> is the answer of the directory dialog.\<close>

definition load_types :: "world \<Rightarrow> builtins \<Rightarrow> string \<Rightarrow> app20 \<Rightarrow> notice option \<times> app20" where
  "load_types W B folder st = (if folder = [] then (None, st) else load_types_folder_silent W B folder False st)"

subsection \<open>Containers\<close>

text \<open>The first of the keys under which the document holds a list.\<close>

definition first_list_key :: "string list \<Rightarrow> pydict \<Rightarrow> string option" where
  "first_list_key keys d =
     List.find (\<lambda>key. case map_of d key of Some (JList _) \<Rightarrow> True | _ \<Rightarrow> False) keys"

text \<open>The fallback scan of \<^verbatim>\<open>_index_containers\<close>: the first field that is a list whose
  first element is a dict with a loot field.\<close>

definition looks_like_containers :: "json \<Rightarrow> bool" where
  "looks_like_containers v = (case v of
      JList (JObj c # _) \<Rightarrow> ''Loot'' \<in> fst ` set c \<or> ''m_Loot'' \<in> fst ` set c
    | _ \<Rightarrow> False)"

definition find_container_list :: "pydict \<Rightarrow> string option" where
  "find_container_list d = (case first_list_key [''AirdropContainers'', ''Containers'', ''m_AirdropContainers''] d of
      Some key \<Rightarrow> Some key
    | None \<Rightarrow> map_option fst (List.find (\<lambda>(k, v). looks_like_containers v) d))"

text \<open>\<^verbatim>\<open>a or b or ... or last\<close>\<close>

fun first_truthy :: "json list \<Rightarrow> json \<Rightarrow> json" where
  "first_truthy [] final = final"
| "first_truthy (v # vs) final = (if truthy v then v else first_truthy vs final)"

definition get_none :: "pydict \<Rightarrow> string \<Rightarrow> json" where
  "get_none d k = get_or d k JNull"

definition container_label :: "builtins \<Rightarrow> nat \<Rightarrow> pydict \<Rightarrow> string" where
  "container_label B i c =
     (let name = first_truthy [get_none c ''Name'', get_none c ''ContainerName'', get_none c ''m_Name'']
                   (JStr (''Container_'' @ py_repr B (JInt (int i))));
          container_class = first_truthy [get_none c ''Container'', get_none c ''ContainerType'',
                   get_none c ''m_Container''] (JStr [])
      in if truthy container_class then py_str B name @ ''  ('' @ py_str B container_class @ '')''
         else py_str B name)"

text \<open>The loop of \<^verbatim>\<open>_index_containers\<close>: labels in document order and the index dict.\<close>

fun index_loop ::
  "builtins \<Rightarrow> string \<Rightarrow> nat \<Rightarrow> json list \<Rightarrow> string list \<times> (string \<times> container_ref) list \<Rightarrow>
   string list \<times> (string \<times> container_ref) list" where
  "index_loop B key i [] acc = acc"
| "index_loop B key i (c # cs) acc = (case c of
      JObj d \<Rightarrow>
        index_loop B key (Suc i) cs
          (fst acc @ [container_label B i d],
           AList.update (container_label B i d) \<lparr>list_key = key, ref_idx = i\<rparr> (snd acc))
    | _ \<Rightarrow> index_loop B key (Suc i) cs acc)"

definition index_containers :: "builtins \<Rightarrow> app20 \<Rightarrow> app20" where
  "index_containers B st = (case airdrop_data st of
      Some (JObj d) \<Rightarrow> (case find_container_list d of
          None \<Rightarrow> st\<lparr>container_names := [], container_index := []\<rparr>
        | Some key \<Rightarrow> (case map_of d key of
              Some (JList cs) \<Rightarrow>
                (case index_loop B key 0 cs ([], []) of (names, index) \<Rightarrow>
                   st\<lparr>container_names := sort_key lower names, container_index := index\<rparr>)
            | _ \<Rightarrow> st\<lparr>container_names := [], container_index := []\<rparr>))
    | _ \<Rightarrow> st\<lparr>container_names := [], container_index := []\<rparr>)"

text \<open>The object a reference points to, and the document after that object was changed in
  place.\<close>

definition deref :: "json option \<Rightarrow> container_ref \<Rightarrow> py_exn + json" where
  "deref data r = (case data of
      Some (JObj d) \<Rightarrow> (case map_of d (list_key r) of
          Some (JList cs) \<Rightarrow> subscript cs (ref_idx r)
        | _ \<Rightarrow> Inl KeyError)
    | _ \<Rightarrow> Inl TypeError)"

definition assign_ref :: "container_ref \<Rightarrow> json \<Rightarrow> json option \<Rightarrow> json option" where
  "assign_ref r c data = (case data of
      Some (JObj d) \<Rightarrow> (case map_of d (list_key r) of
          Some (JList cs) \<Rightarrow> Some (JObj (AList.update (list_key r) (JList (cs[ref_idx r := c])) d))
        | _ \<Rightarrow> data)
    | _ \<Rightarrow> data)"

text \<open>\<^verbatim>\<open>_get_current_container\<close>: the reference of the selected label and its object.\<close>

definition current_ref :: "app20 \<Rightarrow> container_ref option" where
  "current_ref st = (case current_container_key st of
      None \<Rightarrow> None
    | Some key \<Rightarrow> if key = [] then None else map_of (container_index st) key)"

definition get_current_container_v20 :: "app20 \<Rightarrow> py_exn + json option" where
  "get_current_container_v20 st = (case current_ref st of
      None \<Rightarrow> Inr None
    | Some r \<Rightarrow> and_then (deref (airdrop_data st) r) (\<lambda>c. Inr (Some c)))"

definition clear_loot_editor :: "app20 \<Rightarrow> app20" where
  "clear_loot_editor st = st\<lparr>var_name := [], var_chance := [], var_min := [], var_max := [], var_qty := []\<rparr>"

definition clear_loot_tree :: "app20 \<Rightarrow> app20" where
  "clear_loot_tree st = clear_loot_editor (st\<lparr>selected_loot_index := None\<rparr>)"

text \<open>\<^verbatim>\<open>_get_container_loot_list\<close>: the loot list, its key, and the container, which gets an
  empty \<^verbatim>\<open>Loot\<close> when it has no list under either key.\<close>

definition get_container_loot_list :: "pydict \<Rightarrow> json list \<times> string \<times> pydict" where
  "get_container_loot_list container = (case first_list_key [''Loot'', ''m_Loot''] container of
      Some key \<Rightarrow> (case map_of container key of
          Some (JList loot) \<Rightarrow> (loot, key, container)
        | _ \<Rightarrow> ([], ''Loot'', AList.update ''Loot'' (JList []) container))
    | None \<Rightarrow> ([], ''Loot'', AList.update ''Loot'' (JList []) container))"

text \<open>\<^verbatim>\<open>_load_loot_tree\<close>, as far as it touches the state: selection and editor are cleared
  and the container has a loot list afterwards.\<close>

definition load_loot_tree :: "container_ref \<Rightarrow> pydict \<Rightarrow> app20 \<Rightarrow> app20" where
  "load_loot_tree r container st =
     (case get_container_loot_list container of (loot, key, container') \<Rightarrow>
        (clear_loot_tree st)\<lparr>airdrop_data := assign_ref r (JObj container') (airdrop_data st)\<rparr>)"

definition on_container_change :: "builtins \<Rightarrow> string \<Rightarrow> app20 \<Rightarrow> py_exn + app20" where
  "on_container_change B selected st =
     (if selected = [] \<or> selected \<notin> fst ` set (container_index st)
      then Inr (clear_loot_tree (st\<lparr>current_container_key := None\<rparr>))
      else
        let r = the (map_of (container_index st) selected) in
        and_then (deref (airdrop_data st) r) (\<lambda>c.
          case c of
            JObj container \<Rightarrow>
              let itemcount = get_or container ''ItemCount'' (get_or container ''m_ItemCount'' (JStr []));
                  infected = get_or container ''Infected'' (get_or container ''m_Infected'' (JBool True));
                  infcount = get_or container ''InfectedCount'' (get_or container ''m_InfectedCount'' (JStr []))
              in Inr (load_loot_tree r container
                       (st\<lparr>current_container_key := Some selected,
                           var_item_count := (if itemcount = JNull then [] else py_str B itemcount),
                           var_infected_enabled := truthy infected,
                           var_infected_count := (if infcount = JNull then [] else py_str B infcount)\<rparr>))
          | _ \<Rightarrow> Inl AttributeError))"

definition refresh_container_dropdown :: "builtins \<Rightarrow> app20 \<Rightarrow> py_exn + app20" where
  "refresh_container_dropdown B st =
     (if container_names st = []
      then Inr (clear_loot_tree (st\<lparr>var_container := ''Load airdrop file first'', current_container_key := None\<rparr>))
      else
        let st1 = (if (case current_container_key st of None \<Rightarrow> False | Some key \<Rightarrow> key \<in> set (container_names st))
                   then st\<lparr>var_container := the (current_container_key st)\<rparr>
                   else st\<lparr>var_container := hd (container_names st),
                           current_container_key := Some (hd (container_names st))\<rparr>)
        in on_container_change B (var_container st1) st1)"

subsection \<open>Loot entries\<close>

definition new_loot_row :: "string \<Rightarrow> json" where
  "new_loot_row classname = JObj
     [(''Name'', JStr classname),
      (''Chance'', JFloat (Finite 1.0)),
      (''Min'', JInt 0),
      (''Max'', JInt 1),
      (''QuantityPercent'', JInt 0)]"

text \<open>\<^verbatim>\<open>add_selected_item_to_loot\<close>; \<open>sel\<close> is the class name of the row selected in the item
  browser, \<open>None\<close> with no selection.\<close>

definition add_selected_item_to_loot :: "string option \<Rightarrow> app20 \<Rightarrow> py_exn + (notice option \<times> app20)" where
  "add_selected_item_to_loot sel st = and_then (get_current_container_v20 st) (\<lambda>cur.
     case cur of
       None \<Rightarrow> Inr (Some (ShowWarning ''No container''), st)
     | Some c \<Rightarrow>
         if \<not> truthy c then Inr (Some (ShowWarning ''No container''), st)
         else (case sel of
             None \<Rightarrow> Inr (Some (ShowInfo ''Select item''), st)
           | Some classname \<Rightarrow>
               if classname = [] then Inr (None, st)
               else (case c of
                   JObj container \<Rightarrow>
                     (case get_container_loot_list container of (loot, loot_key, container1) \<Rightarrow>
                        let container2 = AList.update loot_key (JList (loot @ [new_loot_row classname])) container1
                        in Inr (None, load_loot_tree (the (current_ref st)) container2 st))
                 | _ \<Rightarrow> Inl AttributeError)))"



subsection \<open>Container settings and saving\<close>




subsection \<open>Adding and cloning containers\<close>

text \<open>\<^verbatim>\<open>list_ref.append(new_c)\<close> on the list a reference names.\<close>

definition append_to_list :: "string \<Rightarrow> json \<Rightarrow> json option \<Rightarrow> json option" where
  "append_to_list key c data = (case data of
      Some (JObj d) \<Rightarrow> (case map_of d key of
          Some (JList cs) \<Rightarrow> Some (JObj (AList.update key (JList (cs @ [c])) d))
        | _ \<Rightarrow> data)
    | _ \<Rightarrow> data)"


text \<open>\<^verbatim>\<open>add_airdrop\<close>; \<open>name\<close> and \<open>container_class\<close> are the answers of the two dialogs.\<close>

definition add_airdrop ::
  "builtins \<Rightarrow> string option \<Rightarrow> string option \<Rightarrow> app20 \<Rightarrow> py_exn + (notice option \<times> app20)" where
  "add_airdrop B name container_class st = (case airdrop_data st of
      Some (JObj d) \<Rightarrow> (case name of
          None \<Rightarrow> Inr (None, st)
        | Some nm \<Rightarrow>
            if nm = [] then Inr (None, st)
            else (case first_list_key [''AirdropContainers'', ''Containers'', ''m_AirdropContainers''] d of
                None \<Rightarrow> Inr (Some (ShowError ''Schema''), st)
              | Some any_key \<Rightarrow>
                  let new_c = JObj
                        [(''Name'', JStr nm),
                         (''Container'', JStr (case container_class of None \<Rightarrow> [] | Some cc \<Rightarrow> cc)),
                         (''ItemCount'', JInt 10),
                         (''Infected'', JBool True),
                         (''InfectedCount'', JInt 0),
                         (''Loot'', JList [])];
                      st1 = st\<lparr>airdrop_data := append_to_list any_key new_c (airdrop_data st)\<rparr>
                  in and_then (refresh_container_dropdown B (index_containers B st1)) (\<lambda>st2. Inr (None, st2))))
    | _ \<Rightarrow> Inr (Some (ShowWarning ''No file''), st))"

subsection \<open>The file system after a save\<close>



subsection \<open>The market category document\<close>

record market_state =
  market_data :: "json option"
  market_path :: string
  market_dirty :: bool
  var_m_class :: string
  var_m_minp :: string
  var_m_maxp :: string
  var_m_minst :: string
  var_m_maxst :: string

text \<open>\<^verbatim>\<open>self.market_data.get("Items") or []\<close>\<close>

definition market_items :: "pydict \<Rightarrow> json" where
  "market_items d = (case map_of d ''Items'' of
      None \<Rightarrow> JList []
    | Some v \<Rightarrow> if truthy v then v else JList [])"

text \<open>The test of the loop in \<^verbatim>\<open>_market_find_index_by_class\<close>:
  \<^verbatim>\<open>isinstance(row, dict) and str(row.get("ClassName", "")).lower() == target\<close>.\<close>

definition row_matches :: "builtins \<Rightarrow> string \<Rightarrow> json \<Rightarrow> bool" where
  "row_matches B target row = (case row of
      JObj r \<Rightarrow> lower (py_str B (case map_of r ''ClassName'' of None \<Rightarrow> JStr [] | Some v \<Rightarrow> v)) = target
    | _ \<Rightarrow> False)"

text \<open>\<^verbatim>\<open>for i, row in enumerate(items): if ...: return i\<close>, then \<^verbatim>\<open>return None\<close>.\<close>

fun find_row :: "builtins \<Rightarrow> string \<Rightarrow> nat \<Rightarrow> json list \<Rightarrow> nat option" where
  "find_row B target i [] = None"
| "find_row B target i (row # rows) =
     (if row_matches B target row then Some i else find_row B target (Suc i) rows)"

definition market_find_index_by_class :: "builtins \<Rightarrow> market_state \<Rightarrow> string \<Rightarrow> nat option" where
  "market_find_index_by_class B st classname = (case market_data st of
      Some (JObj d) \<Rightarrow> (case market_items d of
          JList items \<Rightarrow> find_row B (lower classname) 0 items
        | _ \<Rightarrow> None)
    | _ \<Rightarrow> None)"

text \<open>\<^verbatim>\<open>self.market_data["Items"].append(entry)\<close> and its row-wise relatives: the
  subscript raises \<^verbatim>\<open>KeyError\<close> without the key, and a value that is no list has none
  of the list operations.\<close>

definition with_items :: "pydict \<Rightarrow> (json list \<Rightarrow> py_exn + json list) \<Rightarrow> py_exn + pydict" where
  "with_items d f = (case map_of d ''Items'' of
      None \<Rightarrow> Inl KeyError
    | Some (JList items) \<Rightarrow> (case f items of
          Inl e \<Rightarrow> Inl e
        | Inr items' \<Rightarrow> Inr (AList.update ''Items'' (JList items') d))
    | Some _ \<Rightarrow> Inl AttributeError)"

definition new_market_entry :: "string \<Rightarrow> int \<Rightarrow> int \<Rightarrow> int \<Rightarrow> int \<Rightarrow> json" where
  "new_market_entry classname maxp minp maxst minst = JObj
     [(''ClassName'', JStr classname),
      (''MaxPriceThreshold'', JInt maxp),
      (''MinPriceThreshold'', JInt minp),
      (''SellPricePercent'', JInt (- 1)),
      (''MaxStockThreshold'', JInt maxst),
      (''MinStockThreshold'', JInt minst),
      (''QuantityPercent'', JInt (- 1)),
      (''SpawnAttachments'', JList []),
      (''Variants'', JList [])]"

text \<open>\<^verbatim>\<open>market_add_selected_from_types\<close>; \<open>sel\<close> is the class name of the row selected
  in the types list, \<open>None\<close> with no selection.\<close>

definition market_add_selected_from_types ::
  "builtins \<Rightarrow> string option \<Rightarrow> market_state \<Rightarrow> py_exn + (notice option \<times> market_state)" where
  "market_add_selected_from_types B sel st = (case market_data st of
      Some (JObj d) \<Rightarrow> (case sel of
          None \<Rightarrow> Inr (Some (ShowInfo ''Select Item''), st)
        | Some classname \<Rightarrow>
            if market_find_index_by_class B st classname \<noteq> None
            then Inr (Some (ShowInfo ''Already Exists''), st)
            else
              let maxp = safe_int_v20 B (var_m_maxp st) 10;
                  minp = safe_int_v20 B (var_m_minp st) (max 1 (maxp div 2));
                  maxst = safe_int_v20 B (var_m_maxst st) 100;
                  minst = safe_int_v20 B (var_m_minst st) 0;
                  entry = new_market_entry classname maxp minp maxst minst
              in (case with_items d (\<lambda>items. Inr (items @ [entry])) of
                    Inl e \<Rightarrow> Inl e
                  | Inr d' \<Rightarrow> Inr (None, st\<lparr>market_data := Some (JObj d'), market_dirty := True\<rparr>)))
    | _ \<Rightarrow> Inr (Some (ShowWarning ''No Market''), st))"




section \<open>The document in the object store\<close>

text \<open>
  Python lists and dicts are objects that several variables can share, and the handlers change
  them in place. Where a property depends on what is shared, the document is modelled in a store:
  an object is a list or a dict, a composite value is a reference to an object, the store is the
  list of all objects and an address is a position in it. Allocation appends to the store.
\<close>

datatype val = VNull | VBool bool | VInt int | VFloat pyfloat | VStr string | VRef nat

datatype obj = OList "val list" | ODict "(string \<times> val) list"

type_synonym store = "obj list"

text \<open>The values held by an object, and the addresses it refers to.\<close>

definition vals_of :: "obj \<Rightarrow> val list" where
  "vals_of ob = (case ob of OList vs \<Rightarrow> vs | ODict kvs \<Rightarrow> map snd kvs)"

fun addr_of :: "val \<Rightarrow> nat list" where
  "addr_of (VRef a) = [a]"
| "addr_of _ = []"

definition refs_of :: "obj \<Rightarrow> nat set" where
  "refs_of ob = set (concat (map addr_of (vals_of ob)))"

text \<open>
  \<^verbatim>\<open>json.loads\<close> builds fresh objects for a tree, children first.
\<close>

fun loads :: "json \<Rightarrow> store \<Rightarrow> val \<times> store"
  and loads_list :: "json list \<Rightarrow> store \<Rightarrow> val list \<times> store"
  and loads_fields :: "(string \<times> json) list \<Rightarrow> store \<Rightarrow> (string \<times> val) list \<times> store" where
  "loads JNull h = (VNull, h)"
| "loads (JBool b) h = (VBool b, h)"
| "loads (JInt i) h = (VInt i, h)"
| "loads (JFloat f) h = (VFloat f, h)"
| "loads (JStr s) h = (VStr s, h)"
| "loads (JList xs) h = (case loads_list xs h of (vs, h1) \<Rightarrow> (VRef (length h1), h1 @ [OList vs]))"
| "loads (JObj d) h = (case loads_fields d h of (kvs, h1) \<Rightarrow> (VRef (length h1), h1 @ [ODict kvs]))"
| "loads_list [] h = ([], h)"
| "loads_list (x # xs) h = (case loads x h of (v, h1) \<Rightarrow>
     (case loads_list xs h1 of (vs, h2) \<Rightarrow> (v # vs, h2)))"
| "loads_fields [] h = ([], h)"
| "loads_fields (kx # d) h = (case loads (snd kx) h of (v, h1) \<Rightarrow>
     (case loads_fields d h1 of (kvs, h2) \<Rightarrow> ((fst kx, v) # kvs, h2)))"

text \<open>
  \<^verbatim>\<open>json.dumps\<close> reads the tree below a value out of the store. The fuel bounds the nesting;
  \<open>None\<close> is the \<^verbatim>\<open>ValueError\<close> of a circular reference (or a reference to no object).
\<close>

fun dumps :: "store \<Rightarrow> nat \<Rightarrow> val \<Rightarrow> json option"
  and dumps_list :: "store \<Rightarrow> nat \<Rightarrow> val list \<Rightarrow> json list option"
  and dumps_fields :: "store \<Rightarrow> nat \<Rightarrow> (string \<times> val) list \<Rightarrow> (string \<times> json) list option" where
  "dumps h n VNull = Some JNull"
| "dumps h n (VBool b) = Some (JBool b)"
| "dumps h n (VInt i) = Some (JInt i)"
| "dumps h n (VFloat f) = Some (JFloat f)"
| "dumps h n (VStr s) = Some (JStr s)"
| "dumps h 0 (VRef a) = None"
| "dumps h (Suc n) (VRef a) =
     (if a < length h
      then (case h ! a of
              OList vs \<Rightarrow> map_option JList (dumps_list h n vs)
            | ODict kvs \<Rightarrow> map_option JObj (dumps_fields h n kvs))
      else None)"
| "dumps_list h n [] = Some []"
| "dumps_list h n (v # vs) = (case dumps h n v of
      None \<Rightarrow> None
    | Some x \<Rightarrow> map_option ((#) x) (dumps_list h n vs))"
| "dumps_fields h n [] = Some []"
| "dumps_fields h n (kv # kvs) = (case dumps h n (snd kv) of
      None \<Rightarrow> None
    | Some x \<Rightarrow> map_option ((#) (fst kv, x)) (dumps_fields h n kvs))"

text \<open>Nesting deeper than the number of objects in the store passes through some object
  twice, so the size of the store is fuel enough for every tree.\<close>

definition json_dumps :: "store \<Rightarrow> val \<Rightarrow> json option" where
  "json_dumps h v = dumps h (length h) v"

text \<open>\<^verbatim>\<open>json.loads(json.dumps(v))\<close>\<close>

definition deep_copy :: "val \<Rightarrow> store \<Rightarrow> py_exn + (val \<times> store)" where
  "deep_copy v h = (case json_dumps h v of None \<Rightarrow> Inl ValueError | Some t \<Rightarrow> Inr (loads t h))"

text \<open>Reading and writing objects through references.\<close>

definition get_dict :: "store \<Rightarrow> val \<Rightarrow> py_exn + (nat \<times> (string \<times> val) list)" where
  "get_dict h v = (case v of
      VRef a \<Rightarrow> if a < length h then (case h ! a of ODict d \<Rightarrow> Inr (a, d) | _ \<Rightarrow> Inl AttributeError)
                else Inl AttributeError
    | _ \<Rightarrow> Inl AttributeError)"

definition get_list :: "store \<Rightarrow> val \<Rightarrow> py_exn + (nat \<times> val list)" where
  "get_list h v = (case v of
      VRef a \<Rightarrow> if a < length h then (case h ! a of OList vs \<Rightarrow> Inr (a, vs) | _ \<Rightarrow> Inl AttributeError)
                else Inl AttributeError
    | _ \<Rightarrow> Inl AttributeError)"

text \<open>\<^verbatim>\<open>data["Containers"]\<close>: the address and the elements of the container list.\<close>

definition containers_in :: "store \<Rightarrow> val \<Rightarrow> py_exn + (nat \<times> val list)" where
  "containers_in h data = and_then (get_dict h data) (\<lambda>(root, top).
     case map_of top ''Containers'' of
       None \<Rightarrow> Inl KeyError
     | Some v \<Rightarrow> get_list h v)"

text \<open>\<^verbatim>\<open>{c.get("Container", "") for c in containers}\<close> on the store.\<close>

fun existing_in :: "store \<Rightarrow> val list \<Rightarrow> py_exn + val list" where
  "existing_in h [] = Inr []"
| "existing_in h (c # cs) = and_then (get_dict h c) (\<lambda>(a, d).
     case (case map_of d ''Container'' of None \<Rightarrow> VStr [] | Some v \<Rightarrow> v) of
       VRef r \<Rightarrow> Inl TypeError
     | v \<Rightarrow> and_then (existing_in h cs) (\<lambda>vs. Inr (v # vs)))"

text \<open>
  The statements of \<^verbatim>\<open>duplicate_container\<close> (version 1.8) that touch the document, on the
  store: the deep copy of the source container, the new name, a loot list if the copy has none,
  a new empty loot list when the user asked for one, and the append to the container list.
  The result carries the address of the clone.
\<close>

definition duplicate_container_store ::
  "store \<Rightarrow> val \<Rightarrow> nat \<Rightarrow> string option \<Rightarrow> bool \<Rightarrow> py_exn + (notice option \<times> store \<times> nat option)" where
  "duplicate_container_store h data i new_name clear_loot =
     and_then (containers_in h data) (\<lambda>(la, cs).
     and_then (subscript cs i) (\<lambda>src.
     and_then (get_dict h src) (\<lambda>(a, s).
       case new_name of
         None \<Rightarrow> Inr (None, h, None)
       | Some nm \<Rightarrow>
           if nm = [] then Inr (None, h, None)
           else and_then (existing_in h cs) (\<lambda>existing.
             if VStr nm \<in> set existing then Inr (Some (ShowWarning ''Name exists''), h, None)
             else and_then (deep_copy src h) (\<lambda>(clone, h1).
                  and_then (get_dict h1 clone) (\<lambda>(a', d).
                    let d1 = AList.update ''Container'' (VStr nm) d;
                        h2 = h1[a' := ODict d1];
                        (d2, h3) = (if ''Loot'' \<in> fst ` set d1 then (d1, h2)
                                    else (AList.update ''Loot'' (VRef (length h2)) d1,
                                          (h2 @ [OList []])[a' := ODict (AList.update ''Loot'' (VRef (length h2)) d1)]));
                        h4 = (if clear_loot
                              then (h3 @ [OList []])[a' := ODict (AList.update ''Loot'' (VRef (length h3)) d2)]
                              else h3)
                    in Inr (None, h4[la := OList (cs @ [clone])], Some a')))))))"

text \<open>
  The ways the handlers of version 1.8 change the loot of the current container, on the store,
  for the container at address \<open>c\<close>: \<^verbatim>\<open>add_item_to_loot\<close>, \<^verbatim>\<open>remove_selected_loot\<close>,
  \<^verbatim>\<open>duplicate_selected_loot\<close>, \<^verbatim>\<open>clear_current_loot\<close> and the field assignments of
  \<^verbatim>\<open>apply_editor_to_selected\<close>.
\<close>

datatype loot_op =
    AddItem string
  | RemoveSelected nat
  | DuplicateSelected nat
  | ClearLoot
  | EditSelected nat string val val val val

text \<open>The loot list of the container dict at an address: \<^verbatim>\<open>c.get("Loot", [])\<close> where the
  key is present.\<close>

definition loot_in :: "store \<Rightarrow> nat \<Rightarrow> py_exn + (nat \<times> val list) option" where
  "loot_in h c = and_then (get_dict h (VRef c)) (\<lambda>(a, d).
     case map_of d ''Loot'' of
       None \<Rightarrow> Inr None
     | Some v \<Rightarrow> and_then (get_list h v) (\<lambda>r. Inr (Some r)))"

fun loot_step :: "nat \<Rightarrow> loot_op \<Rightarrow> store \<Rightarrow> py_exn + store" where
  "loot_step c (AddItem classname) h =
     and_then (get_dict h (VRef c)) (\<lambda>(a, d).
       let h1 = (if ''Loot'' \<in> fst ` set d then h
                 else (h @ [OList []])[c := ODict (AList.update ''Loot'' (VRef (length h)) d)])
       in and_then (loot_in h1 c) (\<lambda>l. case l of
            None \<Rightarrow> Inl KeyError
          | Some (la, loot) \<Rightarrow>
              (case loads (default_loot_entry classname) h1 of (entry, h2) \<Rightarrow>
                 Inr (h2[la := OList (loot @ [entry])]))))"
| "loot_step c (RemoveSelected i) h =
     and_then (loot_in h c) (\<lambda>l. case l of
        None \<Rightarrow> Inr h
      | Some (la, loot) \<Rightarrow> if i \<ge> length loot then Inr h else Inr (h[la := OList (del_index i loot)]))"
| "loot_step c (DuplicateSelected i) h =
     and_then (loot_in h c) (\<lambda>l. case l of
        None \<Rightarrow> Inr h
      | Some (la, loot) \<Rightarrow>
          if i \<ge> length loot then Inr h
          else and_then (deep_copy (loot ! i) h) (\<lambda>(entry, h1).
                 Inr (h1[la := OList (loot @ [entry])])))"
| "loot_step c ClearLoot h =
     and_then (get_dict h (VRef c)) (\<lambda>(a, d).
       if d = [] then Inr h
       else Inr ((h @ [OList []])[c := ODict (AList.update ''Loot'' (VRef (length h)) d)]))"
| "loot_step c (EditSelected i name chance mn mx qty) h =
     and_then (loot_in h c) (\<lambda>l. case l of
        None \<Rightarrow> Inr h
      | Some (la, loot) \<Rightarrow>
          if i \<ge> length loot then Inr h
          else and_then (get_dict h (loot ! i)) (\<lambda>(e, entry).
                 Inr (h[e := ODict (AList.update ''QuantityPercent'' qty (AList.update ''Max'' mx
                        (AList.update ''Min'' mn (AList.update ''Chance'' chance
                        (AList.update ''Name'' (VStr name) entry)))))])))"

fun loot_steps :: "nat \<Rightarrow> loot_op list \<Rightarrow> store \<Rightarrow> py_exn + store" where
  "loot_steps c [] h = Inr h"
| "loot_steps c (x # xs) h = and_then (loot_step c x h) (loot_steps c xs)"

text \<open>The objects of a store from address \<open>n\<close> on refer only to each other.\<close>

definition fresh_closed :: "nat \<Rightarrow> store \<Rightarrow> bool" where
  "fresh_closed n h = (\<forall>b. n \<le> b \<and> b < length h \<longrightarrow> refs_of (h ! b) \<subseteq> {n..<length h})"

text \<open>Two stores hold the same objects below address \<open>n\<close>, but for the object at \<open>la\<close>.\<close>

definition same_below :: "nat \<Rightarrow> nat \<Rightarrow> store \<Rightarrow> store \<Rightarrow> bool" where
  "same_below n la h h' = (n \<le> length h' \<and> (\<forall>b < n. b \<noteq> la \<longrightarrow> h' ! b = h ! b))"

text \<open>
  What holds of a store \<open>x\<close> reached from the store \<open>h\<close> by cloning a container and changing
  the clone's loot: below the old size only the container list at \<open>la\<close> differs from \<open>h\<close> and
  holds \<open>lobj\<close>, the objects added since refer only to each other, and the clone at \<open>a'\<close> is
  one of them.
\<close>

definition clone_inv :: "store \<Rightarrow> nat \<Rightarrow> obj \<Rightarrow> nat \<Rightarrow> store \<Rightarrow> bool" where
  "clone_inv h la lobj a' x =
     (same_below (length h) la h x \<and> fresh_closed (length h) x \<and> la < length h \<and> x ! la = lobj \<and>
      length h \<le> a' \<and> a' < length x)"

section \<open>Concrete inputs\<close>

text \<open>Built-ins that know no number at all, and built-ins that read the few numerals the
  examples type into the forms and print the few values the examples show.\<close>

definition B0 :: builtins where
  "B0 = \<lparr>py_float = (\<lambda>s. None), py_int = (\<lambda>s. None), py_repr = (\<lambda>v. []), py_set_iter = remdups\<rparr>"

definition B1 :: builtins where
  "B1 = \<lparr>py_float = (\<lambda>s. if s = ''15'' then Some (Finite 15) else if s = ''0.5'' then Some (Finite 0.5) else None),
          py_int = (\<lambda>s. if s = ''15'' then Some 15 else if s = ''7'' then Some 7 else None),
          py_repr = (\<lambda>v. case map_of
             [(JInt 0, ''0''), (JInt 2, ''2''), (JInt 4, ''4''), (JInt 5, ''5''), (JInt 7, ''7''),
              (JInt 15, ''15''), (JInt 50, ''50''), (JInt (- 1), ''-1''),
              (JFloat (Finite 0.1), ''0.1''), (JFloat (Finite 0.25), ''0.25''),
              (JFloat (Finite 50), ''50.0''), (JFloat (Finite (- 1)), ''-1.0''),
              (JBool True, ''True''), (JBool False, ''False''), (JNull, ''None'')] v of
               None \<Rightarrow> []
             | Some s \<Rightarrow> s),
          py_set_iter = remdups\<rparr>"

definition mkt0 :: market_state where
  "mkt0 = \<lparr>market_data = Some (JObj [(''DisplayName'', JStr ''Ammo''),
       (''Items'', JList [JObj [(''ClassName'', JStr ''Ammo_9x19''), (''MaxPriceThreshold'', JInt 10)]])]),
     market_path = ''Ammo.json'', market_dirty = False, var_m_class = ''AMMO_9X19'',
     var_m_minp = ''5'', var_m_maxp = ''x'', var_m_minst = [], var_m_maxst = []\<rparr>"

text \<open>A document of version 1.8 with two containers, the first selected.\<close>

definition heli :: pydict where
  "heli = [(''Container'', JStr ''Heli_Crash''), (''ItemCount'', JInt 5),
           (''Loot'', JList [JObj [(''Name'', JStr ''AKM''), (''Chance'', JFloat (Finite 0.25)),
                                   (''Min'', JInt 2), (''Max'', JInt 4), (''QuantityPercent'', JFloat (Finite 50))]])]"

definition drop_b :: pydict where
  "drop_b = [(''Container'', JStr ''Drop_B''), (''Loot'', JList [])]"

definition doc18 :: json where
  "doc18 = JObj [(''Containers'', JList [JObj heli, JObj drop_b])]"

definition st18 :: app18 where
  "st18 = \<lparr>airdrop_path = ''Airdrop.json'', airdrop_data = Some doc18,
      types_folders = [], types_files_loaded = [], all_items = [], item_meta = [], source_to_items = [],
      container_names = [JStr ''Heli_Crash'', JStr ''Drop_B''], selected_loot_index = Some 0,
      var_search = [], var_source = ''All Types Files'', var_container = ''Heli_Crash'',
      var_item_count = [], var_infected_count = [], var_infected_enabled = True,
      var_name = ''AKM'', var_chance = ''abc'', var_min = ''x'', var_max = ''y'', var_qty = [],
      current_container_index = Some 0, pending_container_settings = []\<rparr>"

text \<open>A document of version 2.0 with one container, selected.\<close>

definition heli20 :: pydict where
  "heli20 = [(''Name'', JStr ''Heli_Crash''), (''ItemCount'', JInt 5),
             (''Loot'', JList [JObj [(''Name'', JStr ''AKM''), (''Chance'', JFloat (Finite 0.25)),
                                     (''Min'', JInt 2), (''Max'', JInt 4), (''QuantityPercent'', JInt 50)]])]"

definition doc20 :: json where
  "doc20 = JObj [(''Containers'', JList [JObj heli20])]"

definition ref0 :: container_ref where
  "ref0 = \<lparr>list_key = ''Containers'', ref_idx = 0\<rparr>"

definition st20 :: app20 where
  "st20 = \<lparr>airdrop_path = ''Airdrop.json'', airdrop_data = Some doc20,
      types_folders = [], types_files_loaded = [], all_items = [], item_meta = [], source_to_items = [],
      container_names = [''Heli_Crash''], selected_loot_index = Some 0,
      var_search = [], var_source = ''All Types Files'', var_container = ''Heli_Crash'',
      var_item_count = ''7'', var_infected_count = [], var_infected_enabled = True,
      var_name = ''AKM'', var_chance = ''abc'', var_min = ''x'', var_max = ''y'', var_qty = [],
      container_index = [(''Heli_Crash'', ref0)], current_container_key = Some ''Heli_Crash'',
      cfg_types_folders = []\<rparr>"




text \<open>A types folder with one file that declares one class.\<close>

definition world0 :: world where
  "world0 = \<lparr>os_walk = (\<lambda>folder. if folder = ''types'' then [(''types'', [''types.xml''])] else []),
       et_parse = (\<lambda>p. if p = ''types/types.xml''
                        then Some (Element ''types'' [] None [Element ''type'' [(''name'', ''AKM'')] None []])
                        else None),
       path_join = (\<lambda>a b. a @ ''/'' @ b),
       basename = (\<lambda>p. rev (takeWhile (\<lambda>c. c \<noteq> CHR ''/'') (rev p)))\<rparr>"

text \<open>The two applications after the folder was ingested once.\<close>

definition ingested18 :: app18 where
  "ingested18 = snd (add_types_folder world0 B1 ''types'' st18)"

definition ingested20 :: app20 where
  "ingested20 = snd (load_types_folder_silent world0 B1 ''types'' False st20)"

text \<open>
  Version 1.8 after the user has selected \<^verbatim>\<open>Drop_B\<close>, typed the item count 15 there and
  gone back to \<^verbatim>\<open>Heli_Crash\<close>; and the same application after \<^verbatim>\<open>Heli_Crash\<close> was removed.
\<close>

definition patch_b :: pydict where
  "patch_b = [(''ItemCount'', JInt 15), (''Infected'', JBool True)]"

definition staged18 :: app18 where
  "staged18 = st18\<lparr>selected_loot_index := None, var_item_count := ''5'',
      var_name := [], var_chance := [], var_min := [], var_max := [], var_qty := [],
      pending_container_settings := [(0, [(''Infected'', JBool True)]), (1, patch_b)]\<rparr>"

definition removed18 :: app18 where
  "removed18 = staged18\<lparr>airdrop_data := Some (JObj [(''Containers'', JList [JObj drop_b])]),
      container_names := [JStr ''Drop_B''], var_container := ''Drop_B'', var_item_count := ''15'',
      pending_container_settings := [(0, patch_b)]\<rparr>"

section \<open>Basic facts about the document accessors\<close>

lemma and_then_Inr [simp]: "and_then (Inr x) f = f x"
  by (simp add: and_then_def)

lemma and_then_Inl [simp]: "and_then (Inl e) f = Inl e"
  by (simp add: and_then_def)

lemma subscript_in_range [simp]: "i < length xs \<Longrightarrow> subscript xs i = Inr (xs ! i)"
  by (simp add: subscript_def)

lemma get_set_containers:
  "get_containers data = Inr cs \<Longrightarrow> get_containers (set_containers cs' data) = Inr cs'"
  by (auto simp: get_containers_def set_containers_def update_conv' split: json.splits option.splits)

lemma truthy_data: "get_containers data = Inr cs \<Longrightarrow> truthy data"
  by (auto simp: get_containers_def split: json.splits option.splits)

lemma has_data: "airdrop_data st = Some data \<Longrightarrow> get_containers data = Inr cs \<Longrightarrow> \<not> no_data (airdrop_data st)"
  by (simp add: no_data_def truthy_data)

lemma get_current_container_wf:
  "airdrop_data st = Some data \<Longrightarrow> current_container_index st = Some i \<Longrightarrow>
   get_containers data = Inr cs \<Longrightarrow> i < length cs \<Longrightarrow> get_current_container st = Inr (Some (cs ! i))"
  by (simp add: get_current_container_def)

lemma put_current_container_wf:
  "airdrop_data st = Some data \<Longrightarrow> current_container_index st = Some i \<Longrightarrow>
   get_containers data = Inr cs \<Longrightarrow>
   put_current_container c st = Inr (st\<lparr>airdrop_data := Some (set_containers (cs[i := c]) data)\<rparr>)"
  by (simp add: put_current_container_def)

lemma truthy_dict_with_key: "map_of d k = Some v \<Longrightarrow> truthy (JObj d)"
  by (cases d) auto

lemma map_of_setdefault: "map_of d k = Some v \<Longrightarrow> setdefault k w d = d"
  by (auto simp: setdefault_def dest: map_of_SomeD intro: rev_image_eqI)

lemma get_or_Some [simp]: "map_of d k = Some v \<Longrightarrow> get_or d k w = v"
  by (simp add: get_or_def)

lemma get_or_None [simp]: "map_of d k = None \<Longrightarrow> get_or d k w = w"
  by (simp add: get_or_def)

lemma first_list_key_Loot:
  "map_of c ''Loot'' = Some (JList rows) \<Longrightarrow> get_container_loot_list c = (rows, ''Loot'', c)"
  by (simp add: get_container_loot_list_def first_list_key_def)

section \<open>Pending container settings\<close>


lemma set_set_containers:
  "get_containers data = Inr cs \<Longrightarrow> set_containers cs'' (set_containers cs' data) = set_containers cs'' data"
  by (auto simp: get_containers_def set_containers_def split: json.splits option.splits)















lemma strip_empty [simp]: "strip [] = []"
  by (simp add: strip_def)


lemma wf_containerD:
  "wf_container c \<Longrightarrow> \<exists>d loot. c = JObj d \<and> map_of d ''Loot'' = Some (JList loot) \<and> ''Container'' \<in> fst ` set d"
  by (cases c) (auto simp: wf_container_def split: option.splits json.splits)


section \<open>Loot entries\<close>

text \<open>
  Claim C4, as stated, fails on version 2.0: the row \<^verbatim>\<open>add_selected_item_to_loot\<close> appends has
  chance 1.0, max 1 and quantity 0 and neither attachments nor variants.
\<close>

theorem new_loot_entry_counterexample:
  "add_selected_item_to_loot (Some ''M4A1'') st20 =
     Inr (None, st20\<lparr>airdrop_data := Some (JObj [(''Containers'', JList [JObj
        [(''Name'', JStr ''Heli_Crash''), (''ItemCount'', JInt 5),
         (''Loot'', JList [JObj [(''Name'', JStr ''AKM''), (''Chance'', JFloat (Finite 0.25)), (''Min'', JInt 2),
                                 (''Max'', JInt 4), (''QuantityPercent'', JInt 50)],
                           JObj [(''Name'', JStr ''M4A1''), (''Chance'', JFloat (Finite 1)), (''Min'', JInt 0),
                                 (''Max'', JInt 1), (''QuantityPercent'', JInt 0)]])]])]),
       selected_loot_index := None, var_name := [], var_chance := [], var_min := [], var_max := [], var_qty := []\<rparr>) \<and>
   JObj [(''Name'', JStr ''M4A1''), (''Chance'', JFloat (Finite 1)), (''Min'', JInt 0),
         (''Max'', JInt 1), (''QuantityPercent'', JInt 0)] \<noteq> default_loot_entry ''M4A1''"
  by (simp add: add_selected_item_to_loot_def get_current_container_v20_def current_ref_def st20_def
      deref_def doc20_def ref0_def heli20_def get_container_loot_list_def first_list_key_def
      load_loot_tree_def clear_loot_tree_def clear_loot_editor_def assign_ref_def new_loot_row_def
      default_loot_entry_def)

text \<open>
  Claim C4, amended. Version 1.8 (\<^verbatim>\<open>add_item_to_loot\<close>) appends to the current container's loot
  an entry with exactly chance 0.10, min 0, max -1, quantity percent -1 and empty attachments and
  variants. Version 2.0 (\<^verbatim>\<open>add_selected_item_to_loot\<close>) appends a row with chance 1.0, min 0,
  max 1, quantity percent 0 and no attachments or variants fields.
\<close>

theorem new_loot_entry_by_version:
  assumes "airdrop_data s = Some data" and "current_container_index s = Some i"
    and "get_containers data = Inr cs" and "i < length cs" and "cs ! i = JObj d"
    and "map_of d ''Loot'' = Some (JList loot)"
    and "current_ref t = Some r" and "deref (airdrop_data t) r = Inr (JObj c)"
    and "map_of c ''Loot'' = Some (JList rows)" and "cn \<noteq> []"
  shows "(\<exists>s'. add_item_to_loot B cn s = Inr (None, s') \<and>
            airdrop_data s' = Some (set_containers (cs[i := JObj (AList.update ''Loot'' (JList (loot @
              [JObj [(''Name'', JStr cn), (''Chance'', JFloat (Finite 0.10)), (''Attachments'', JList []),
                     (''QuantityPercent'', JFloat (Finite (- 1))), (''Max'', JInt (- 1)), (''Min'', JInt 0),
                     (''Variants'', JList [])]])) d)]) data)) \<and>
         add_selected_item_to_loot (Some cn) t =
           Inr (None, (clear_loot_tree t)\<lparr>airdrop_data := assign_ref r (JObj (AList.update ''Loot'' (JList (rows @
              [JObj [(''Name'', JStr cn), (''Chance'', JFloat (Finite 1.0)), (''Min'', JInt 0), (''Max'', JInt 1),
                     (''QuantityPercent'', JInt 0)]])) c)) (airdrop_data t)\<rparr>)"
proof -
  let ?d' = "AList.update ''Loot'' (JList (loot @ [default_loot_entry cn])) d"
  let ?s1 = "s\<lparr>airdrop_data := Some (set_containers (cs[i := JObj ?d']) data)\<rparr>"
  let ?s2 = "?s1\<lparr>selected_loot_index := Some (length (loot @ [default_loot_entry cn]) - 1)\<rparr>"
  have ne: "d \<noteq> []" "c \<noteq> []"
    using assms(6,9) by auto
  have cur: "get_current_container s = Inr (Some (JObj d))"
    using assms(1-5) by (simp add: get_current_container_wf)
  have put: "put_current_container (JObj ?d') s = Inr ?s1"
    using assms(1-3) by (rule put_current_container_wf)
  have cur2: "get_current_container ?s2 = Inr (Some (JObj ?d'))"
    using assms(2-4) by (simp add: get_current_container_def get_set_containers)
  have "\<exists>s3. populate_editor_from_selected B ?s2 = Inr s3 \<and> airdrop_data s3 = airdrop_data ?s2"
    unfolding populate_editor_from_selected_def cur2
    by (simp add: loot_of_def update_conv' default_loot_entry_def nth_append truthy_dict_with_key[of _ "''Loot''"])
  then obtain s3 where s3: "populate_editor_from_selected B ?s2 = Inr s3" "airdrop_data s3 = airdrop_data ?s2"
    by blast
  have "add_item_to_loot B cn s = Inr (None, s3)"
    unfolding add_item_to_loot_def cur using assms(6) put s3(1) ne
    by (simp add: map_of_setdefault)
  then have v18: "\<exists>s'. add_item_to_loot B cn s = Inr (None, s') \<and>
            airdrop_data s' = Some (set_containers (cs[i := JObj ?d']) data)"
    using s3(2) by simp
  have v20: "add_selected_item_to_loot (Some cn) t =
      Inr (None, (clear_loot_tree t)\<lparr>airdrop_data := assign_ref r
        (JObj (AList.update ''Loot'' (JList (rows @ [new_loot_row cn])) c)) (airdrop_data t)\<rparr>)"
    using assms(7-10) ne
    by (simp add: add_selected_item_to_loot_def get_current_container_v20_def
        first_list_key_Loot load_loot_tree_def update_conv')
  show ?thesis using v18 v20 by (simp add: default_loot_entry_def new_loot_row_def)
qed

theorem new_loot_entry_by_version_witness:
  "(\<exists>s'. add_item_to_loot B1 ''M4A1'' st18 = Inr (None, s') \<and>
      airdrop_data s' = Some (set_containers ([JObj heli, JObj drop_b][0 := JObj (AList.update ''Loot''
        (JList ([JObj [(''Name'', JStr ''AKM''), (''Chance'', JFloat (Finite 0.25)), (''Min'', JInt 2),
                       (''Max'', JInt 4), (''QuantityPercent'', JFloat (Finite 50))]] @
          [JObj [(''Name'', JStr ''M4A1''), (''Chance'', JFloat (Finite 0.10)), (''Attachments'', JList []),
                 (''QuantityPercent'', JFloat (Finite (- 1))), (''Max'', JInt (- 1)), (''Min'', JInt 0),
                 (''Variants'', JList [])]])) heli)]) doc18)) \<and>
   add_selected_item_to_loot (Some ''M4A1'') st20 =
     Inr (None, (clear_loot_tree st20)\<lparr>airdrop_data := assign_ref ref0 (JObj (AList.update ''Loot''
        (JList ([JObj [(''Name'', JStr ''AKM''), (''Chance'', JFloat (Finite 0.25)), (''Min'', JInt 2),
                       (''Max'', JInt 4), (''QuantityPercent'', JInt 50)]] @
          [JObj [(''Name'', JStr ''M4A1''), (''Chance'', JFloat (Finite 1.0)), (''Min'', JInt 0), (''Max'', JInt 1),
                 (''QuantityPercent'', JInt 0)]])) heli20)) (airdrop_data st20)\<rparr>)"
proof -
  have h1: "airdrop_data st18 = Some doc18" by (simp add: st18_def)
  have h2: "current_container_index st18 = Some 0" by (simp add: st18_def)
  have h3: "get_containers doc18 = Inr [JObj heli, JObj drop_b]" by (simp add: doc18_def get_containers_def)
  have h4: "0 < length [JObj heli, JObj drop_b]" by simp
  have h5: "[JObj heli, JObj drop_b] ! 0 = JObj heli" by simp
  have h6: "map_of heli ''Loot'' = Some (JList [JObj [(''Name'', JStr ''AKM''), (''Chance'', JFloat (Finite 0.25)),
      (''Min'', JInt 2), (''Max'', JInt 4), (''QuantityPercent'', JFloat (Finite 50))]])"
    by (simp add: heli_def)
  have h7: "current_ref st20 = Some ref0" by (simp add: current_ref_def st20_def)
  have h8: "deref (airdrop_data st20) ref0 = Inr (JObj heli20)"
    by (simp add: deref_def st20_def doc20_def ref0_def)
  have h9: "map_of heli20 ''Loot'' = Some (JList [JObj [(''Name'', JStr ''AKM''), (''Chance'', JFloat (Finite 0.25)),
      (''Min'', JInt 2), (''Max'', JInt 4), (''QuantityPercent'', JInt 50)]])"
    by (simp add: heli20_def)
  have h10: "''M4A1'' \<noteq> []" by simp
  show ?thesis by (rule new_loot_entry_by_version[OF h1 h2 h3 h4 h5 h6 h7 h8 h9 h10])
qed







section \<open>The reference catalog\<close>

lemma merge_file_v18_folders:
  "types_folders (fst (merge_file_v18 W B acc p)) = types_folders (fst acc)"
  by (cases acc) (simp add: merge_file_v18_def split: option.splits prod.splits)

lemma merge_loop_v18_folders:
  "types_folders (fst (foldl (merge_file_v18 W B) acc ps)) = types_folders (fst acc)"
  by (induction ps arbitrary: acc) (simp_all add: merge_file_v18_folders)

lemma merge_types_files_v18_folders:
  "types_folders (snd (merge_types_files_v18 W B ps st)) = types_folders st"
  using merge_loop_v18_folders[of W B "(st, all_items st, [])" ps]
  by (auto simp: merge_types_files_v18_def split: prod.splits)

lemma add_types_folder_folders:
  "folder \<noteq> [] \<Longrightarrow> types_folders (snd (add_types_folder W B folder st)) = types_folders st @ [folder]"
  by (simp add: add_types_folder_def Let_def merge_types_files_v18_folders)

lemma ingested18_folders: "types_folders ingested18 = [''types'']"
  unfolding ingested18_def by (simp add: add_types_folder_folders) (simp add: st18_def)

lemma ingested20_folders: "types_folders ingested20 = [''types'']"
  by code_simp

text \<open>
  Claim C9, as stated, fails on version 1.8: after the folder was ingested once, choosing it again
  in \<^verbatim>\<open>add_types_folder\<close> puts it on the list of known folders a second time.
\<close>

theorem reingest_counterexample:
  "types_folders ingested18 = [''types''] \<and> all_items ingested18 = [''AKM''] \<and>
   types_folders (snd (add_types_folder world0 B1 ''types'' ingested18)) = [''types'', ''types'']"
proof -
  have "all_items ingested18 = [''AKM'']" by code_simp
  then show ?thesis
    by (simp add: ingested18_folders add_types_folder_folders)
qed

text \<open>
  Claim C9, amended. In version 2.0 ingesting a folder that is already on the list of known folders
  (\<^verbatim>\<open>_load_types_folder_silent\<close>, and \<^verbatim>\<open>load_types\<close> through it) changes nothing: items,
  per-source index, metadata and known folders are as before. Version 1.8 has no such test:
  \<^verbatim>\<open>add_types_folder\<close> appends the chosen folder to the known folders every time.
\<close>

theorem reingest_known_folder:
  assumes "folder \<in> set (types_folders t)" and "folder \<noteq> []"
  shows "load_types_folder_silent W B folder show_warnings t = (None, t) \<and>
         load_types W B folder t = (None, t) \<and>
         types_folders (snd (add_types_folder W B folder s)) = types_folders s @ [folder]"
  using assms by (simp add: load_types_folder_silent_def load_types_def add_types_folder_folders)

theorem reingest_known_folder_witness:
  "load_types_folder_silent world0 B1 ''types'' True ingested20 = (None, ingested20) \<and>
   load_types world0 B1 ''types'' ingested20 = (None, ingested20) \<and>
   types_folders (snd (add_types_folder world0 B1 ''types'' ingested18)) = [''types'', ''types'']"
proof -
  have h1: "''types'' \<in> set (types_folders ingested20)" by (simp add: ingested20_folders)
  have h2: "''types'' \<noteq> []" by simp
  from reingest_known_folder[OF h1 h2, of world0 B1 True ingested18]
  show ?thesis by (simp add: ingested18_folders)
qed

section \<open>Saving\<close>

lemma no_data_wf: "airdrop_data st = Some data \<Longrightarrow> truthy data \<Longrightarrow> \<not> no_data (airdrop_data st)"
  by (simp add: no_data_def)





section \<open>Container names\<close>







section \<open>Removing a container\<close>

lemma remap_step:
  assumes "distinct (map fst p)" and "r \<notin> fst ` set p"
  shows "map_of (foldl (\<lambda>new_pending (idx, changes).
              if idx < r then AList.update idx changes new_pending
              else if idx > r then AList.update (idx - 1) changes new_pending
              else new_pending) acc p) j =
         (case map_of p (if j < r then j else Suc j) of None \<Rightarrow> map_of acc j | Some ch \<Rightarrow> Some ch)"
  using assms
proof (induction p arbitrary: acc)
  case Nil
  then show ?case by simp
next
  case (Cons kv p)
  obtain k ch where kv: "kv = (k, ch)" by (cases kv)
  have k: "k \<noteq> r" "map_of p k = None" and rest: "distinct (map fst p)" "r \<notin> fst ` set p"
    using Cons.prems kv by (auto simp: map_of_eq_None_iff)
  show ?case
    using Cons.IH[OF rest] k kv
    by (auto simp: update_conv' split: option.splits)
qed

lemma map_of_remap_pending:
  "distinct (map fst p) \<Longrightarrow> r \<notin> fst ` set p \<Longrightarrow>
   map_of (remap_pending r p) j = map_of p (if j < r then j else Suc j)"
  unfolding remap_pending_def
  by (simp add: remap_step split: option.splits)

lemma map_of_remap_after_pop:
  assumes "distinct (map fst p)" and "i \<noteq> r"
  shows "map_of (remap_pending r (AList.delete r p)) (if i < r then i else i - 1) = map_of p i"
proof -
  have d: "distinct (map fst (AList.delete r p))"
    using assms(1) by (rule distinct_delete)
  have n: "r \<notin> fst ` set (AList.delete r p)"
    by (rule delete_notin_dom)
  have "(if (if i < r then i else i - 1) < r then (if i < r then i else i - 1)
         else Suc (if i < r then i else i - 1)) = i"
    using assms(2) by auto
  then have "map_of (remap_pending r (AList.delete r p)) (if i < r then i else i - 1) =
        map_of (AList.delete r p) i"
    using map_of_remap_pending[OF d n, of "if i < r then i else i - 1"] by simp
  then show ?thesis using assms(2) by (simp add: delete_conv')
qed

lemma nth_del_index:
  "i < length xs \<Longrightarrow> r < length xs \<Longrightarrow> i \<noteq> r \<Longrightarrow> del_index r xs ! (if i < r then i else i - 1) = xs ! i"
  by (auto simp: del_index_def nth_append min_def)

lemma length_del_index: "r < length xs \<Longrightarrow> length (del_index r xs) = length xs - 1"
  by (auto simp: del_index_def)

lemma wf_del_index: "list_all wf_container xs \<Longrightarrow> list_all wf_container (del_index r xs)"
  by (auto simp: del_index_def list_all_iff dest: in_set_takeD in_set_dropD)

lemma names_from_wf:
  "list_all wf_container cs \<Longrightarrow> \<exists>names. names_from B i cs = Inr names \<and> length names = length cs"
proof (induction cs arbitrary: i)
  case Nil
  then show ?case by simp
next
  case (Cons c cs)
  from Cons.prems obtain d where d: "c = JObj d" using wf_containerD by auto
  from Cons.IH[of "Suc i"] Cons.prems obtain names where
    "names_from B (Suc i) cs = Inr names" "length names = length cs" by auto
  with d show ?case by simp
qed

lemma get_current_container_cong:
  "airdrop_data st' = airdrop_data st \<Longrightarrow> current_container_index st' = current_container_index st \<Longrightarrow>
   get_current_container st' = get_current_container st"
  by (auto simp: get_current_container_def split: option.splits)

lemma load_ui_none:
  "get_current_container st = Inr None \<Longrightarrow>
   load_container_settings_into_ui B st = Inr (blank_container_settings st)"
  by (simp add: load_container_settings_into_ui_def)

lemma load_ui_dict:
  assumes "get_current_container st = Inr (Some (JObj d))" and "d \<noteq> []"
  shows "\<exists>st'. load_container_settings_into_ui B st = Inr st' \<and> airdrop_data st' = airdrop_data st \<and>
      pending_container_settings st' = pending_container_settings st \<and>
      current_container_index st' = current_container_index st"
  using assms by (simp add: load_container_settings_into_ui_def Let_def)

lemma refresh_wf:
  "get_current_container st = Inr (Some (JObj d)) \<Longrightarrow> map_of d ''Loot'' = Some (JList loot) \<Longrightarrow>
   refresh_loot_table_chunked st = Inr st"
  by (cases d) (auto simp: refresh_loot_table_chunked_def)

lemma rebuild_wf:
  assumes "airdrop_data st = Some data" and "get_containers data = Inr cs" and "list_all wf_container cs"
    and "k < length cs"
  shows "\<exists>st'. rebuild_container_dropdown B (Some k) st = Inr st' \<and> airdrop_data st' = airdrop_data st \<and>
      pending_container_settings st' = pending_container_settings st \<and>
      current_container_index st' = Some k"
proof -
  from names_from_wf[OF assms(3), of B 0] obtain names where
    n: "names_from B 0 cs = Inr names" "length names = length cs" by blast
  have "names \<noteq> []" using n(2) assms(4) by auto
  then show ?thesis
    using has_data[OF assms(1,2)] assms(1,2,4) n
    by (simp add: rebuild_container_dropdown_def)
qed

lemma rebuild_empty:
  assumes "airdrop_data st = Some data" and "get_containers data = Inr []"
  shows "\<exists>st'. rebuild_container_dropdown B sel st = Inr st' \<and> airdrop_data st' = airdrop_data st \<and>
      pending_container_settings st' = pending_container_settings st \<and>
      current_container_index st' = None"
  using has_data[OF assms] assms by (simp add: rebuild_container_dropdown_def)

lemma staged18_reached:
  "and_then (on_container_change_v18 B1 (st18\<lparr>var_container := ''Drop_B''\<rparr>)) (\<lambda>s1.
     on_container_change_v18 B1 (s1\<lparr>var_item_count := ''15'', var_container := ''Heli_Crash''\<rparr>)) = Inr staged18"
  by code_simp

text \<open>
  Claim C2, as stated, fails: version 1.8 keys the pending settings by array position, not by a
  stable handle. The patch staged for \<^verbatim>\<open>Drop_B\<close> is stored under its position 1; after
  \<^verbatim>\<open>Heli_Crash\<close> at position 0 is removed, nothing is stored under 1 and the same patch is
  stored under 0.
\<close>

theorem removal_renumbers_counterexample:
  "map_of (pending_container_settings staged18) 1 = Some patch_b \<and>
   remove_container B1 True staged18 = Inr removed18 \<and>
   map_of (pending_container_settings removed18) 1 = None \<and>
   map_of (pending_container_settings removed18) 0 = Some patch_b"
proof -
  have "remove_container B1 True staged18 = Inr removed18" by code_simp
  then show ?thesis by (simp add: staged18_def removed18_def)
qed

text \<open>
  Claim C2, amended. The pending settings of version 1.8 are keyed by array position, and
  \<^verbatim>\<open>remove_container\<close> keeps them in step with the array: it drops the patch of the removed
  position and moves every key above it down by one, so that for every other container the patch
  staged for it is found under that container's new position.
\<close>

theorem removal_renumbers_patches:
  assumes "airdrop_data s = Some data" and "get_containers data = Inr cs"
    and "list_all wf_container cs" and "current_container_index s = Some r" and "r < length cs"
    and "r < length (container_names s)" and "wf_pending (pending_container_settings s)"
  shows "\<exists>s' data'. remove_container B True s = Inr s' \<and> airdrop_data s' = Some data' \<and>
           get_containers data' = Inr (del_index r cs) \<and>
           (\<forall>i < length cs. i \<noteq> r \<longrightarrow>
              del_index r cs ! (if i < r then i else i - 1) = cs ! i \<and>
              map_of (pending_container_settings s') (if i < r then i else i - 1) =
                map_of (pending_container_settings s) i)"
proof -
  let ?cs' = "del_index r cs"
  let ?data' = "set_containers ?cs' data"
  let ?p' = "remap_pending r (AList.delete r (pending_container_settings s))"
  let ?s1 = "s\<lparr>airdrop_data := Some ?data', pending_container_settings := ?p'\<rparr>"
  have g': "get_containers ?data' = Inr ?cs'"
    using assms(2) by (rule get_set_containers)
  have wf': "list_all wf_container ?cs'"
    using assms(3) by (rule wf_del_index)
  have nd: "\<not> no_data (airdrop_data s)"
    using assms(1,2) by (rule has_data)
  have "\<exists>s'. remove_container B True s = Inr s' \<and> airdrop_data s' = Some ?data' \<and>
      pending_container_settings s' = ?p'"
  proof (cases "?cs' = []")
    case True
    let ?s1n = "?s1\<lparr>current_container_index := None\<rparr>"
    have d1: "airdrop_data ?s1n = Some ?data'" by simp
    from rebuild_empty[OF d1, of B None] g' True obtain s2 where
      s2: "rebuild_container_dropdown B None ?s1n = Inr s2" "airdrop_data s2 = airdrop_data ?s1n"
        "pending_container_settings s2 = pending_container_settings ?s1n" "current_container_index s2 = None"
      by auto
    have "get_current_container (clear_editor s2) = Inr None"
      using s2(4) by (simp add: get_current_container_def clear_editor_def split: option.splits)
    then have "load_container_settings_into_ui B (clear_editor s2) = Inr (blank_container_settings (clear_editor s2))"
      by (rule load_ui_none)
    then show ?thesis
      using nd assms(1,2,4,5,6) True s2
      by (simp add: remove_container_def Let_def blank_container_settings_def clear_editor_def)
  next
    case False
    let ?k = "min r (length ?cs' - 1)"
    have "0 < length ?cs'" using False by simp
    then have k: "?k < length ?cs'" by arith
    have d1: "airdrop_data ?s1 = Some ?data'" by simp
    from rebuild_wf[OF d1 g' wf' k, of B] obtain s2 where
      s2: "rebuild_container_dropdown B (Some ?k) ?s1 = Inr s2" "airdrop_data s2 = airdrop_data ?s1"
        "pending_container_settings s2 = pending_container_settings ?s1" "current_container_index s2 = Some ?k"
      by blast
    let ?s3 = "clear_editor (s2\<lparr>selected_loot_index := None\<rparr>)"
    from wf' k obtain d loot where d: "?cs' ! ?k = JObj d" "map_of d ''Loot'' = Some (JList loot)"
      using wf_containerD by (metis list_all_length)
    have dne: "d \<noteq> []" using d(2) by auto
    have cur3: "get_current_container ?s3 = Inr (Some (JObj d))"
      using s2(2,4) g' k d(1) by (simp add: get_current_container_def clear_editor_def)
    from load_ui_dict[OF cur3 dne, of B] obtain s4 where
      s4: "load_container_settings_into_ui B ?s3 = Inr s4" "airdrop_data s4 = airdrop_data ?s3"
        "pending_container_settings s4 = pending_container_settings ?s3"
        "current_container_index s4 = current_container_index ?s3"
      by blast
    have cur4: "get_current_container s4 = Inr (Some (JObj d))"
      using get_current_container_cong[OF s4(2,4)] cur3 by simp
    have "refresh_loot_table_chunked s4 = Inr s4"
      using cur4 d(2) by (rule refresh_wf)
    then show ?thesis
      using nd assms(1,2,4,5,6) False s2 s4
      by (simp add: remove_container_def Let_def clear_editor_def)
  qed
  then obtain s' where s': "remove_container B True s = Inr s'" "airdrop_data s' = Some ?data'"
      "pending_container_settings s' = ?p'" by blast
  have dist: "distinct (map fst (pending_container_settings s))"
    using assms(7) by (simp add: wf_pending_def)
  have "\<forall>i < length cs. i \<noteq> r \<longrightarrow>
              del_index r cs ! (if i < r then i else i - 1) = cs ! i \<and>
              map_of ?p' (if i < r then i else i - 1) = map_of (pending_container_settings s) i"
    using assms(5) dist by (simp add: nth_del_index map_of_remap_after_pop)
  with s' g' show ?thesis by auto
qed

theorem removal_renumbers_patches_witness:
  "\<exists>s' data'. remove_container B1 True staged18 = Inr s' \<and> airdrop_data s' = Some data' \<and>
      get_containers data' = Inr [JObj drop_b] \<and>
      map_of (pending_container_settings s') 0 = Some patch_b"
proof -
  have h1: "airdrop_data staged18 = Some doc18" by (simp add: staged18_def st18_def)
  have h2: "get_containers doc18 = Inr [JObj heli, JObj drop_b]" by (simp add: doc18_def get_containers_def)
  have h3: "list_all wf_container [JObj heli, JObj drop_b]" by (simp add: wf_container_def heli_def drop_b_def)
  have h4: "current_container_index staged18 = Some 0" by (simp add: staged18_def st18_def)
  have h5: "0 < length [JObj heli, JObj drop_b]" by simp
  have h6: "0 < length (container_names staged18)" by (simp add: staged18_def st18_def)
  have h7: "wf_pending (pending_container_settings staged18)"
    by (simp add: staged18_def wf_pending_def patch_b_def)
  from removal_renumbers_patches[OF h1 h2 h3 h4 h5 h6 h7, of B1] obtain s' data' where
    r: "remove_container B1 True staged18 = Inr s'" "airdrop_data s' = Some data'"
       "get_containers data' = Inr (del_index 0 [JObj heli, JObj drop_b])"
       "\<forall>i < length [JObj heli, JObj drop_b]. i \<noteq> 0 \<longrightarrow>
          del_index 0 [JObj heli, JObj drop_b] ! (if i < 0 then i else i - 1) = [JObj heli, JObj drop_b] ! i \<and>
          map_of (pending_container_settings s') (if i < 0 then i else i - 1) =
            map_of (pending_container_settings staged18) i"
    by blast
  from r(4) have "map_of (pending_container_settings s') 0 = map_of (pending_container_settings staged18) 1"
    by (simp add: nat_less_iff)
  then have "map_of (pending_container_settings s') 0 = Some patch_b"
    by (simp add: staged18_def)
  with r(1-3) show ?thesis by (auto simp: del_index_def)
qed

section \<open>Properties of the market document\<close>

lemma find_row_None: "find_row B t i rows = None \<longleftrightarrow> (\<forall>row \<in> set rows. \<not> row_matches B t row)"
  by (induction rows arbitrary: i) auto

lemma find_row_Some:
  "find_row B t i rows = Some k \<Longrightarrow>
     i \<le> k \<and> k - i < length rows \<and> row_matches B t (rows ! (k - i)) \<and>
      (\<forall>j < k - i. \<not> row_matches B t (rows ! j))"
proof (induction rows arbitrary: i)
  case Nil
  then show ?case by simp
next
  case (Cons row rows)
  show ?case
  proof (cases "row_matches B t row")
    case True
    then show ?thesis using Cons.prems by auto
  next
    case False
    then have step: "find_row B t (Suc i) rows = Some k" using Cons.prems by simp
    from Cons.IH[OF step] obtain m where m: "k - i = Suc m" "k - Suc i = m" "i \<le> k"
      by (metis Suc_diff_Suc Suc_le_lessD less_or_eq_imp_le)
    with Cons.IH[OF step] False show ?thesis
      by (auto simp: less_Suc_eq_0_disj)
  qed
qed

lemma market_items_list:
  "map_of d ''Items'' = Some (JList items) \<Longrightarrow> market_items d = JList items"
  by (cases items) (simp_all add: market_items_def)

lemma find_index_first_match:
  assumes "market_data st = Some (JObj d)" and "map_of d ''Items'' = Some (JList items)"
    and "row \<in> set items" and "row_matches B (lower n) row"
  shows "\<exists>i. market_find_index_by_class B st n = Some i \<and> i < length items \<and>
           row_matches B (lower n) (items ! i) \<and> (\<forall>j<i. \<not> row_matches B (lower n) (items ! j))"
proof -
  have eq: "market_find_index_by_class B st n = find_row B (lower n) 0 items"
    using assms(1,2) by (simp add: market_find_index_by_class_def market_items_list)
  have "find_row B (lower n) 0 items \<noteq> None"
    using assms(3,4) by (auto simp: find_row_None)
  then obtain i where i: "find_row B (lower n) 0 items = Some i" by auto
  from find_row_Some[OF i] show ?thesis using eq i by simp
qed

lemma row_matches_ClassName:
  "map_of r ''ClassName'' = Some (JStr m) \<Longrightarrow> row_matches B t (JObj r) \<longleftrightarrow> lower m = t"
  by (simp add: row_matches_def py_str_def)


text \<open>
  Claim C8. When the class name chosen in the types list is already the \<^verbatim>\<open>ClassName\<close> of
  a row of the market document's \<^verbatim>\<open>Items\<close>, \<^verbatim>\<open>market_add_selected_from_types\<close> shows
  the "Already Exists" notice and returns: the whole state, and with it the \<^verbatim>\<open>Items\<close>
  array, its length and every row, is unchanged.
\<close>

theorem market_add_duplicate_rejected:
  assumes "market_data st = Some (JObj d)" and "map_of d ''Items'' = Some (JList items)"
    and "JObj r \<in> set items" and "map_of r ''ClassName'' = Some (JStr n)"
  shows "market_add_selected_from_types B (Some n) st = Inr (Some (ShowInfo ''Already Exists''), st)"
proof -
  have "row_matches B (lower n) (JObj r)"
    using assms(4) by (simp add: row_matches_ClassName)
  from find_index_first_match[OF assms(1,2,3) this]
  show ?thesis using assms(1) by (auto simp: market_add_selected_from_types_def)
qed

theorem market_add_duplicate_rejected_witness:
  "market_add_selected_from_types B0 (Some ''Ammo_9x19'') mkt0 = Inr (Some (ShowInfo ''Already Exists''), mkt0)"
proof -
  let ?r = "[(''ClassName'', JStr ''Ammo_9x19''), (''MaxPriceThreshold'', JInt 10)]"
  let ?d = "[(''DisplayName'', JStr ''Ammo''), (''Items'', JList [JObj ?r])]"
  have h1: "market_data mkt0 = Some (JObj ?d)" by (simp add: mkt0_def)
  have h2: "map_of ?d ''Items'' = Some (JList [JObj ?r])" by simp
  have h3: "JObj ?r \<in> set [JObj ?r]" by simp
  have h4: "map_of ?r ''ClassName'' = Some (JStr ''Ammo_9x19'')" by simp
  show ?thesis by (rule market_add_duplicate_rejected[OF h1 h2 h3 h4])
qed



section \<open>Clones in the object store\<close>

lemma refs_of_simps [simp]:
  "refs_of (OList []) = {}"
  "refs_of (OList (v # vs)) = set (addr_of v) \<union> refs_of (OList vs)"
  "refs_of (ODict []) = {}"
  "refs_of (ODict (kv # kvs)) = set (addr_of (snd kv)) \<union> refs_of (ODict kvs)"
  by (simp_all add: refs_of_def vals_of_def)

lemma refs_of_append: "refs_of (OList (vs @ ws)) = refs_of (OList vs) \<union> refs_of (OList ws)"
  by (simp add: refs_of_def vals_of_def)

lemma loads_extends:
  "loads t h = (v, h') \<Longrightarrow>
     (\<exists>ext. h' = h @ ext \<and> (\<forall>ob \<in> set ext. refs_of ob \<subseteq> {length h..<length h'})) \<and>
     set (addr_of v) \<subseteq> {length h..<length h'}"
  "loads_list ts h = (vs, h') \<Longrightarrow>
     (\<exists>ext. h' = h @ ext \<and> (\<forall>ob \<in> set ext. refs_of ob \<subseteq> {length h..<length h'})) \<and>
     refs_of (OList vs) \<subseteq> {length h..<length h'}"
  "loads_fields d h = (kvs, h') \<Longrightarrow>
     (\<exists>ext. h' = h @ ext \<and> (\<forall>ob \<in> set ext. refs_of ob \<subseteq> {length h..<length h'})) \<and>
     refs_of (ODict kvs) \<subseteq> {length h..<length h'}"
proof (induction t h and ts h and d h arbitrary: v h' and vs h' and kvs h' rule: loads_loads_list_loads_fields.induct)
  case (6 xs h)
  obtain ws h1 where l: "loads_list xs h = (ws, h1)" by (cases "loads_list xs h")
  from "6.IH"[OF l] obtain ext where
    e: "h1 = h @ ext" "\<forall>ob \<in> set ext. refs_of ob \<subseteq> {length h..<length h1}"
       "refs_of (OList ws) \<subseteq> {length h..<length h1}" by blast
  have r: "v = VRef (length h1)" "h' = h1 @ [OList ws]"
    using "6.prems" l by auto
  have "h' = h @ (ext @ [OList ws])" using r e(1) by simp
  moreover have "\<forall>ob \<in> set (ext @ [OList ws]). refs_of ob \<subseteq> {length h..<length h'}"
    using e(2,3) r(2) by fastforce
  moreover have "set (addr_of v) \<subseteq> {length h..<length h'}"
    using r e(1) by simp
  ultimately show ?case by blast
next
  case (7 d h)
  obtain ws h1 where l: "loads_fields d h = (ws, h1)" by (cases "loads_fields d h")
  from "7.IH"[OF l] obtain ext where
    e: "h1 = h @ ext" "\<forall>ob \<in> set ext. refs_of ob \<subseteq> {length h..<length h1}"
       "refs_of (ODict ws) \<subseteq> {length h..<length h1}" by blast
  have r: "v = VRef (length h1)" "h' = h1 @ [ODict ws]"
    using "7.prems" l by auto
  have "h' = h @ (ext @ [ODict ws])" using r e(1) by simp
  moreover have "\<forall>ob \<in> set (ext @ [ODict ws]). refs_of ob \<subseteq> {length h..<length h'}"
    using e(2,3) r(2) by fastforce
  moreover have "set (addr_of v) \<subseteq> {length h..<length h'}"
    using r e(1) by simp
  ultimately show ?case by blast
next
  case (9 x xs h)
  obtain w h1 where l1: "loads x h = (w, h1)" by (cases "loads x h")
  obtain ws h2 where l2: "loads_list xs h1 = (ws, h2)" by (cases "loads_list xs h1")
  from "9.IH"(1)[OF l1] obtain e1 where
    e1: "h1 = h @ e1" "\<forall>ob \<in> set e1. refs_of ob \<subseteq> {length h..<length h1}"
        "set (addr_of w) \<subseteq> {length h..<length h1}" by blast
  from "9.IH"(2)[OF l1[symmetric] l2] obtain e2 where
    e2: "h2 = h1 @ e2" "\<forall>ob \<in> set e2. refs_of ob \<subseteq> {length h1..<length h2}"
        "refs_of (OList ws) \<subseteq> {length h1..<length h2}" by blast
  have r: "vs = w # ws" "h' = h2" using "9.prems" l1 l2 by auto
  have le: "length h \<le> length h1" "length h1 \<le> length h2" using e1(1) e2(1) by simp_all
  have "h' = h @ (e1 @ e2)" using r e1(1) e2(1) by simp
  moreover have "\<forall>ob \<in> set (e1 @ e2). refs_of ob \<subseteq> {length h..<length h'}"
    using e1(2) e2(2) le r(2) by fastforce
  moreover have "refs_of (OList vs) \<subseteq> {length h..<length h'}"
    using e1(3) e2(3) le r by fastforce
  ultimately show ?case by blast
next
  case (11 kx d h)
  obtain w h1 where l1: "loads (snd kx) h = (w, h1)" by (cases "loads (snd kx) h")
  obtain ws h2 where l2: "loads_fields d h1 = (ws, h2)" by (cases "loads_fields d h1")
  from "11.IH"(1)[OF l1] obtain e1 where
    e1: "h1 = h @ e1" "\<forall>ob \<in> set e1. refs_of ob \<subseteq> {length h..<length h1}"
        "set (addr_of w) \<subseteq> {length h..<length h1}" by blast
  from "11.IH"(2)[OF l1[symmetric] l2] obtain e2 where
    e2: "h2 = h1 @ e2" "\<forall>ob \<in> set e2. refs_of ob \<subseteq> {length h1..<length h2}"
        "refs_of (ODict ws) \<subseteq> {length h1..<length h2}" by blast
  have r: "kvs = (fst kx, w) # ws" "h' = h2" using "11.prems" l1 l2 by auto
  have le: "length h \<le> length h1" "length h1 \<le> length h2" using e1(1) e2(1) by simp_all
  have "h' = h @ (e1 @ e2)" using r e1(1) e2(1) by simp
  moreover have "\<forall>ob \<in> set (e1 @ e2). refs_of ob \<subseteq> {length h..<length h'}"
    using e1(2) e2(2) le r(2) by fastforce
  moreover have "refs_of (ODict kvs) \<subseteq> {length h..<length h'}"
    using e1(3) e2(3) le r by fastforce
  ultimately show ?case by blast
qed auto


lemma dumps_mono:
  "dumps h n v = Some t \<Longrightarrow> n \<le> m \<Longrightarrow> dumps h m v = Some t"
  "dumps_list h n vs = Some ts \<Longrightarrow> n \<le> m \<Longrightarrow> dumps_list h m vs = Some ts"
  "dumps_fields h n kvs = Some d \<Longrightarrow> n \<le> m \<Longrightarrow> dumps_fields h m kvs = Some d"
proof (induction h n v and h n vs and h n kvs arbitrary: t m and ts m and d m
    rule: dumps_dumps_list_dumps_fields.induct)
  case (7 h n a)
  from "7.prems"(2) obtain m' where m: "m = Suc m'" "n \<le> m'" by (cases m) auto
  show ?case
  proof (cases "h ! a")
    case (OList vs)
    with "7.prems"(1) obtain ts where "a < length h" "dumps_list h n vs = Some ts" "t = JList ts"
      by (auto split: if_splits)
    with "7.IH"(1)[OF _ OList, of ts m'] m OList show ?thesis by simp
  next
    case (ODict kvs)
    with "7.prems"(1) obtain d where "a < length h" "dumps_fields h n kvs = Some d" "t = JObj d"
      by (auto split: if_splits)
    with "7.IH"(2)[OF _ ODict, of d m'] m ODict show ?thesis by simp
  qed
next
  case (9 h n v vs)
  from "9.prems"(1) obtain x xs where
    x: "dumps h n v = Some x" "dumps_list h n vs = Some xs" "ts = x # xs"
    by (auto split: option.splits)
  show ?case
    using "9.IH"(1)[OF x(1) "9.prems"(2)] "9.IH"(2)[OF x(1) x(2) "9.prems"(2)] x(3) by simp
next
  case (11 h n kv kvs)
  from "11.prems"(1) obtain x xs where
    x: "dumps h n (snd kv) = Some x" "dumps_fields h n kvs = Some xs" "d = (fst kv, x) # xs"
    by (auto split: option.splits)
  show ?case
    using "11.IH"(1)[OF x(1) "11.prems"(2)] "11.IH"(2)[OF x(1) x(2) "11.prems"(2)] x(3) by simp
qed auto

lemma dumps_list_member:
  "dumps_list h n vs = Some ts \<Longrightarrow> v \<in> set vs \<Longrightarrow> \<exists>t. dumps h n v = Some t"
  by (induction vs arbitrary: ts) (auto split: option.splits)

text \<open>A dump that succeeds with fuel too small for the object at \<open>la\<close> never reads that object,
  so it does not see what was changed there or added behind.\<close>

lemma dumps_frame:
  "dumps h n v = Some t \<Longrightarrow> n \<le> N \<Longrightarrow> dumps h N (VRef la) = None \<Longrightarrow>
     same_below (length h) la h h' \<Longrightarrow> dumps h' n v = Some t"
  "dumps_list h n vs = Some ts \<Longrightarrow> n \<le> N \<Longrightarrow> dumps h N (VRef la) = None \<Longrightarrow>
     same_below (length h) la h h' \<Longrightarrow> dumps_list h' n vs = Some ts"
  "dumps_fields h n kvs = Some d \<Longrightarrow> n \<le> N \<Longrightarrow> dumps h N (VRef la) = None \<Longrightarrow>
     same_below (length h) la h h' \<Longrightarrow> dumps_fields h' n kvs = Some d"
proof (induction h n v and h n vs and h n kvs arbitrary: t and ts and d
    rule: dumps_dumps_list_dumps_fields.induct)
  case (7 h n a)
  have a: "a < length h" using "7.prems"(1) by (auto split: if_splits)
  have "a \<noteq> la"
  proof
    assume "a = la"
    then have "dumps h N (VRef la) = Some t"
      using dumps_mono(1)[OF "7.prems"(1) "7.prems"(2)] by simp
    then show False using "7.prems"(3) by simp
  qed
  then have same: "h' ! a = h ! a" "a < length h'"
    using "7.prems"(4) a by (auto simp: same_below_def)
  have n: "n \<le> N" using "7.prems"(2) by simp
  show ?case
  proof (cases "h ! a")
    case (OList vs)
    with "7.prems"(1) a obtain ts where "dumps_list h n vs = Some ts" "t = JList ts"
      by auto
    with "7.IH"(1)[OF a OList _ n "7.prems"(3,4), of ts] same OList show ?thesis by simp
  next
    case (ODict kvs)
    with "7.prems"(1) a obtain d where "dumps_fields h n kvs = Some d" "t = JObj d"
      by auto
    with "7.IH"(2)[OF a ODict _ n "7.prems"(3,4), of d] same ODict show ?thesis by simp
  qed
next
  case (9 h n v vs)
  from "9.prems"(1) obtain x xs where
    x: "dumps h n v = Some x" "dumps_list h n vs = Some xs" "ts = x # xs"
    by (auto split: option.splits)
  show ?case
    using "9.IH"(1)[OF x(1) "9.prems"(2,3,4)] "9.IH"(2)[OF x(1) x(2) "9.prems"(2,3,4)] x(3) by simp
next
  case (11 h n kv kvs)
  from "11.prems"(1) obtain x xs where
    x: "dumps h n (snd kv) = Some x" "dumps_fields h n kvs = Some xs" "d = (fst kv, x) # xs"
    by (auto split: option.splits)
  show ?case
    using "11.IH"(1)[OF x(1) "11.prems"(2,3,4)] "11.IH"(2)[OF x(1) x(2) "11.prems"(2,3,4)] x(3) by simp
qed auto

end
